theory Spec2Isabelle
  imports Main "HOL-Library.Multiset" "HOL-Library.AList"
begin

section \<open>Data model (shared/schema.ts)\<close>

text \<open>
  A \<open>Date\<close> is its \<open>getTime()\<close> value, milliseconds since the epoch. A column that
  is not \<open>notNull()\<close> holds \<open>string | null\<close>: an \<open>option\<close>.
\<close>

type_synonym date = int

text \<open>
  An object key that may be missing: \<open>Absent\<close> when the object has no such key,
  \<open>Present v\<close> when it has, with value \<open>v\<close> (which is itself an \<open>option\<close> where the
  schema allows \<open>null\<close>).
\<close>

datatype 'a opt = Absent | Present 'a

text \<open>\<open>typeof projects.$inferSelect\<close>: one field per column of the table \<open>projects\<close>.\<close>

record Project =
  id_p :: string
  title :: string
  description :: string
  amount :: string
  status :: string
  buyerEmail :: string
  sellerEmail :: "string option"
  createdBy :: string
  deadline :: "date option"
  fileName :: "string option"
  fileSize :: "string option"
  fileType :: "string option"
  filePath :: "string option"
  uploadedAt :: "date option"
  paymentStatus :: "string option"
  buyerApproved :: "string option"
  sellerApproved :: "string option"
  currency :: "string option"
  createdAt :: "date option"
  updatedAt :: "date option"

text \<open>\<open>typeof activities.$inferSelect\<close>.\<close>

record Activity =
  id_a :: string
  projectId :: string
  description_a :: string
  type_a :: string
  createdAt_a :: "date option"

text \<open>
  \<open>InsertProject\<close>, the output of \<open>insertProjectSchema\<close>: the columns without \<open>id\<close>,
  \<open>createdAt\<close>, \<open>updatedAt\<close>, \<open>uploadedAt\<close> and the file columns. A column with a
  default is optional; a nullable one also accepts \<open>null\<close>. The \<open>deadline\<close> transform
  always yields a \<open>Date\<close> or \<open>null\<close>.
\<close>

record InsertProject =
  title_i :: string
  description_i :: string
  amount_i :: string
  status_i :: "string opt"
  buyerEmail_i :: string
  sellerEmail_i :: "string option opt"
  createdBy_i :: string
  paymentStatus_i :: "string option opt"
  buyerApproved_i :: "string option opt"
  sellerApproved_i :: "string option opt"
  currency_i :: "string option opt"
  deadline_i :: "date option"

text \<open>\<open>UpdateProject\<close>, the output of \<open>insertProjectSchema.partial()\<close>: every key optional.\<close>

record UpdateProject =
  title_u :: "string opt"
  description_u :: "string opt"
  amount_u :: "string opt"
  status_u :: "string opt"
  buyerEmail_u :: "string opt"
  sellerEmail_u :: "string option opt"
  createdBy_u :: "string opt"
  paymentStatus_u :: "string option opt"
  buyerApproved_u :: "string option opt"
  sellerApproved_u :: "string option opt"
  currency_u :: "string option opt"
  deadline_u :: "date option opt"

text \<open>\<open>InsertActivity\<close>, the output of \<open>insertActivitySchema\<close>.\<close>

record InsertActivity =
  projectId_i :: string
  description_ia :: string
  type_ia :: string

section \<open>The in-memory store (Server/storage.ts)\<close>

text \<open>
  A JavaScript \<open>Map\<close> keeps its entries in insertion order; \<open>set\<close> on a key that is
  already there replaces the value in place, and on a new key adds the entry at the end.
\<close>

type_synonym ('k, 'v) Map = "('k \<times> 'v) list"

definition Map_get :: "'k \<Rightarrow> ('k, 'v) Map \<Rightarrow> 'v option" where
  "Map_get k m = map_of m k"

definition Map_set :: "'k \<Rightarrow> 'v \<Rightarrow> ('k, 'v) Map \<Rightarrow> ('k, 'v) Map" where
  "Map_set k v m = AList.update k v m"

definition Map_values :: "('k, 'v) Map \<Rightarrow> 'v list" where
  "Map_values m = map snd m"

definition Map_keys :: "('k, 'v) Map \<Rightarrow> 'k list" where
  "Map_keys m = map fst m"

record MemStorage =
  projects :: "(string, Project) Map"
  activities :: "(string, Activity) Map"

definition new_MemStorage :: MemStorage where
  "new_MemStorage = \<lparr> projects = [], activities = [] \<rparr>"

definition getProject :: "string \<Rightarrow> MemStorage \<Rightarrow> Project option" where
  "getProject i st = Map_get i (projects st)"

text \<open>
  \<open>x ?? d\<close> on a key that may be missing or \<open>null\<close> (\<open>nullish\<close>), and on a key
  that may be missing but is never \<open>null\<close> (\<open>or_default\<close>, which is also how a default
  parameter stands in for a missing argument).
\<close>

fun nullish :: "'a option opt \<Rightarrow> 'a option \<Rightarrow> 'a option" where
  "nullish (Present (Some v)) d = Some v"
| "nullish (Present None) d = d"
| "nullish Absent d = d"

fun or_default :: "'a opt \<Rightarrow> 'a \<Rightarrow> 'a" where
  "or_default (Present v) d = v"
| "or_default Absent d = d"

text \<open>
  \<open>createProject\<close>. The result of \<open>randomUUID()\<close> is the argument \<open>uuid\<close> and the
  result of \<open>new Date()\<close> the argument \<open>now\<close>.
\<close>

definition createProject ::
  "InsertProject \<Rightarrow> string \<Rightarrow> date \<Rightarrow> MemStorage \<Rightarrow> Project \<times> MemStorage" where
  "createProject insertProject uuid now st =
     (let project = \<lparr>
        id_p = uuid,
        title = title_i insertProject,
        description = description_i insertProject,
        amount = amount_i insertProject,
        status = or_default (status_i insertProject) ''created'',
        buyerEmail = buyerEmail_i insertProject,
        sellerEmail = nullish (sellerEmail_i insertProject) None,
        createdBy = createdBy_i insertProject,
        deadline = deadline_i insertProject,
        fileName = None,
        fileSize = None,
        fileType = None,
        filePath = None,
        uploadedAt = None,
        paymentStatus = nullish (paymentStatus_i insertProject) (Some ''pending''),
        buyerApproved = nullish (buyerApproved_i insertProject) (Some ''false''),
        sellerApproved = nullish (sellerApproved_i insertProject) (Some ''false''),
        currency = nullish (currency_i insertProject) (Some ''USD''),
        createdAt = Some now,
        updatedAt = Some now \<rparr>
      in (project, st\<lparr>projects := Map_set uuid project (projects st)\<rparr>))"

text \<open>One key of \<open>{...project, ...updates}\<close>: a key of \<open>updates\<close> replaces the project's.\<close>

fun spread :: "'a \<Rightarrow> 'a opt \<Rightarrow> 'a" where
  "spread old Absent = old"
| "spread old (Present v) = v"

definition spread_updates :: "Project \<Rightarrow> UpdateProject \<Rightarrow> Project" where
  "spread_updates project updates = project\<lparr>
     title := spread (title project) (title_u updates),
     description := spread (description project) (description_u updates),
     amount := spread (amount project) (amount_u updates),
     status := spread (status project) (status_u updates),
     buyerEmail := spread (buyerEmail project) (buyerEmail_u updates),
     sellerEmail := spread (sellerEmail project) (sellerEmail_u updates),
     createdBy := spread (createdBy project) (createdBy_u updates),
     paymentStatus := spread (paymentStatus project) (paymentStatus_u updates),
     buyerApproved := spread (buyerApproved project) (buyerApproved_u updates),
     sellerApproved := spread (sellerApproved project) (sellerApproved_u updates),
     currency := spread (currency project) (currency_u updates),
     deadline := spread (deadline project) (deadline_u updates) \<rparr>"

definition updateProject ::
  "string \<Rightarrow> UpdateProject \<Rightarrow> date \<Rightarrow> MemStorage \<Rightarrow> Project option \<times> MemStorage" where
  "updateProject i updates now st =
     (case Map_get i (projects st) of
        None \<Rightarrow> (None, st)
      | Some project \<Rightarrow>
          (let updatedProject = (spread_updates project updates)\<lparr>updatedAt := Some now\<rparr>
           in (Some updatedProject, st\<lparr>projects := Map_set i updatedProject (projects st)\<rparr>)))"

definition createActivity ::
  "InsertActivity \<Rightarrow> string \<Rightarrow> date \<Rightarrow> MemStorage \<Rightarrow> Activity \<times> MemStorage" where
  "createActivity insertActivity uuid now st =
     (let activity = \<lparr>
        id_a = uuid,
        projectId = projectId_i insertActivity,
        description_a = description_ia insertActivity,
        type_a = type_ia insertActivity,
        createdAt_a = Some now \<rparr>
      in (activity, st\<lparr>activities := Map_set uuid activity (activities st)\<rparr>))"

text \<open>
  \<open>Array.prototype.sort\<close> with a comparator is a stable sort: \<open>x\<close> goes before \<open>y\<close>
  when \<open>cmp x y\<close> is negative, and elements that compare equal keep their order.
\<close>

fun insert_cmp :: "('a \<Rightarrow> 'a \<Rightarrow> int) \<Rightarrow> 'a \<Rightarrow> 'a list \<Rightarrow> 'a list" where
  "insert_cmp cmp x [] = [x]"
| "insert_cmp cmp x (y # ys) =
     (if cmp x y \<le> 0 then x # y # ys else y # insert_cmp cmp x ys)"

definition Array_sort :: "('a \<Rightarrow> 'a \<Rightarrow> int) \<Rightarrow> 'a list \<Rightarrow> 'a list" where
  "Array_sort cmp xs = foldr (insert_cmp cmp) xs []"

text \<open>
  \<open>xs.slice(0, stop)\<close>: a negative index counts from the end of the array, so the
  slice stops at \<open>max (length + stop) 0\<close>.
\<close>

definition Array_slice0 :: "int \<Rightarrow> 'a list \<Rightarrow> 'a list" where
  "Array_slice0 stop xs =
     (if stop < 0 then take (nat (int (length xs) + stop)) xs else take (nat stop) xs)"

text \<open>\<open>a.createdAt?.getTime() || 0\<close>: \<open>0\<close> for a missing date and for the time \<open>0\<close>.\<close>

definition getTime_or_0 :: "Activity \<Rightarrow> int" where
  "getTime_or_0 a = (case createdAt_a a of None \<Rightarrow> 0 | Some t \<Rightarrow> if t = 0 then 0 else t)"

definition by_createdAt_desc :: "Activity \<Rightarrow> Activity \<Rightarrow> int" where
  "by_createdAt_desc a b = getTime_or_0 b - getTime_or_0 a"

definition getActivitiesByProject :: "string \<Rightarrow> MemStorage \<Rightarrow> Activity list" where
  "getActivitiesByProject pid st =
     Array_sort by_createdAt_desc
       (filter (\<lambda>activity. projectId activity = pid) (Map_values (activities st)))"

text \<open>\<open>limit: number = 10\<close>: the default stands in when the argument is missing.\<close>

definition getRecentActivities :: "int opt \<Rightarrow> MemStorage \<Rightarrow> Activity list" where
  "getRecentActivities limit st =
     Array_slice0 (or_default limit 10)
       (Array_sort by_createdAt_desc (Map_values (activities st)))"

section \<open>The routes (Server/routes.ts)\<close>

text \<open>
  What a request is answered with: \<open>res.status(n).json(...)\<close> (status \<open>200\<close> when the
  handler sets none, bodies \<open>{ message }\<close>, a project, file information, activities) or
  \<open>res.download(path, name)\<close>; or, when the upload middleware passes an error on, no
  answer of the route handler at all.
\<close>

record FileInfo =
  fileName_f :: "string option"
  fileSize_f :: "string option"
  fileType_f :: "string option"
  uploadedAt_f :: "date option"
  downloadAllowed :: bool

datatype body =
    Message string
  | ProjectJson "Project option"
  | FileInfoJson FileInfo
  | ActivitiesJson "Activity list"
  | FileDownload string string

datatype response = Response nat body | NextError string

text \<open>
  What each request draws from its surroundings, in the order of the calls:
  \<open>randomUUID()\<close> in \<open>createProject\<close> and in \<open>createActivity\<close>, \<open>new Date()\<close> in
  \<open>createProject\<close> or \<open>updateProject\<close>, for \<open>uploadedAt\<close>, and in \<open>createActivity\<close>.
\<close>

record env =
  uuid_project :: string
  uuid_activity :: string
  date_project :: date
  date_uploaded :: date
  date_activity :: date

text \<open>The file of a multipart request as multer describes it (\<open>req.file\<close>).\<close>

record File =
  originalname :: string
  mimetype :: string
  size_f :: nat
  path_f :: string

definition no_updates :: UpdateProject where
  "no_updates = \<lparr> title_u = Absent, description_u = Absent, amount_u = Absent,
     status_u = Absent, buyerEmail_u = Absent, sellerEmail_u = Absent, createdBy_u = Absent,
     paymentStatus_u = Absent, buyerApproved_u = Absent, sellerApproved_u = Absent,
     currency_u = Absent, deadline_u = Absent \<rparr>"

text \<open>\<open>size.toString()\<close> of a byte count: its decimal digits.\<close>

definition digit_char :: "nat \<Rightarrow> char" where
  "digit_char d = ''0123456789'' ! d"

fun Number_toString :: "nat \<Rightarrow> string" where
  "Number_toString n =
     (if n < 10 then [digit_char n]
      else Number_toString (n div 10) @ [digit_char (n mod 10)])"

declare Number_toString.simps [simp del]

subsection \<open>The upload middleware\<close>

definition allowedTypes :: "string list" where
  "allowedTypes = [''.stl'', ''.step'', ''.obj'', ''.ply'']"

definition fileSize_limit :: nat where
  "fileSize_limit = 50 * 1024 * 1024"

text \<open>
  \<open>fileFilter\<close>: \<open>cb(null, true)\<close> is \<open>Inr True\<close>, \<open>cb(new Error(...))\<close> is \<open>Inl\<close> of the
  message. \<open>path.extname\<close> and \<open>String.prototype.toLowerCase\<close> belong to the platform
  and are arguments.
\<close>

definition fileFilter :: "(string \<Rightarrow> string) \<Rightarrow> (string \<Rightarrow> string) \<Rightarrow> File \<Rightarrow> string + bool" where
  "fileFilter extname toLowerCase file =
     (let ext = toLowerCase (extname (originalname file))
      in if ext \<in> set allowedTypes then Inr True
         else Inl ''Only STL, STEP, OBJ, and PLY files are allowed'')"

text \<open>
  \<open>upload.single('file')\<close>: a request without a file goes on with \<open>req.file\<close> undefined;
  a file that the filter refuses, or that is larger than \<open>limits.fileSize\<close>, ends the
  request with an error and the route handler does not run.
\<close>

definition upload_single ::
  "(string \<Rightarrow> string) \<Rightarrow> (string \<Rightarrow> string) \<Rightarrow> File option \<Rightarrow> string + File option" where
  "upload_single extname toLowerCase sent =
     (case sent of
        None \<Rightarrow> Inr None
      | Some file \<Rightarrow>
          (case fileFilter extname toLowerCase file of
             Inl err \<Rightarrow> Inl err
           | Inr accept \<Rightarrow>
               if \<not> accept then Inr None
               else if size_f file > fileSize_limit then Inl ''File too large''
               else Inr (Some file)))"

subsection \<open>The handlers\<close>

text \<open>
  Each handler runs in a \<open>try\<close> whose \<open>catch\<close> answers \<open>500\<close> (\<open>400\<close> for creation and
  update). With the in-memory store the only call that throws is the schema's \<open>parse\<close>,
  which is the \<open>None\<close> of the two bodies below; \<open>req.body\<close> is an object, as the JSON
  body parser leaves it, so reading \<open>req.body.action\<close> does not throw.
\<close>

text \<open>\<open>POST /api/projects\<close>; \<open>None\<close> is a body that \<open>insertProjectSchema.parse\<close> throws on.\<close>

definition create_route :: "InsertProject option \<Rightarrow> env \<Rightarrow> MemStorage \<Rightarrow> response \<times> MemStorage" where
  "create_route parsed e st =
     (case parsed of
        None \<Rightarrow> (Response 400 (Message ''Invalid project data''), st)
      | Some validatedData \<Rightarrow>
          (let (project, st1) = createProject validatedData (uuid_project e) (date_project e) st;
               (activity, st2) = createActivity
                  \<lparr> projectId_i = id_p project,
                    description_ia = ''Project '' @ [CHR 0x22] @ title project @ [CHR 0x22] @ '' created'',
                    type_ia = ''created'' \<rparr> (uuid_activity e) (date_activity e) st1
           in (Response 201 (ProjectJson (Some project)), st2)))"

text \<open>\<open>PATCH /api/projects/:id\<close>; \<open>None\<close> is a body that \<open>updateProjectSchema.parse\<close> throws on.\<close>

definition update_route ::
  "string \<Rightarrow> UpdateProject option \<Rightarrow> env \<Rightarrow> MemStorage \<Rightarrow> response \<times> MemStorage" where
  "update_route i parsed e st =
     (case parsed of
        None \<Rightarrow> (Response 400 (Message ''Invalid update data''), st)
      | Some validatedData \<Rightarrow>
          (let (project, st1) = updateProject i validatedData (date_project e) st
           in case project of
                None \<Rightarrow> (Response 404 (Message ''Project not found''), st1)
              | Some p \<Rightarrow> (Response 200 (ProjectJson (Some p)), st1)))"

text \<open>
  \<open>POST /api/projects/:id/upload\<close>, the handler behind the middleware. The object that
  \<open>getProject\<close> returns is the one the map holds, so the assignments to its file fields
  change the stored project.
\<close>

definition upload_route ::
  "string \<Rightarrow> File option \<Rightarrow> env \<Rightarrow> MemStorage \<Rightarrow> response \<times> MemStorage" where
  "upload_route i req_file e st =
     (case req_file of
        None \<Rightarrow> (Response 400 (Message ''No file uploaded''), st)
      | Some file \<Rightarrow>
          (case getProject i st of
             None \<Rightarrow> (Response 404 (Message ''Project not found''), st)
           | Some project \<Rightarrow>
               (let (updatedProject, st1) =
                      updateProject i (no_updates\<lparr>status_u := Present ''file_uploaded''\<rparr>)
                        (date_project e) st;
                    (projectWithFile, st2) =
                      (case getProject i st1 of
                         None \<Rightarrow> (None, st1)
                       | Some pw \<Rightarrow>
                           (let pw' = pw\<lparr>
                                  fileName := Some (originalname file),
                                  fileSize := Some (Number_toString (size_f file)),
                                  fileType := Some (mimetype file),
                                  filePath := Some (path_f file),
                                  uploadedAt := Some (date_uploaded e) \<rparr>
                            in (Some pw', st1\<lparr>projects := Map_set i pw' (projects st1)\<rparr>)));
                    (activity, st3) = createActivity
                      \<lparr> projectId_i = i,
                        description_ia = ''File '' @ [CHR 0x22] @ originalname file @ [CHR 0x22] @ '' uploaded'',
                        type_ia = ''upload'' \<rparr> (uuid_activity e) (date_activity e) st2
                in (Response 200 (ProjectJson projectWithFile), st3))))"

text \<open>The whole endpoint: the middleware, then the handler.\<close>

definition uploadFile ::
  "(string \<Rightarrow> string) \<Rightarrow> (string \<Rightarrow> string) \<Rightarrow> string \<Rightarrow> File option \<Rightarrow> env \<Rightarrow> MemStorage
     \<Rightarrow> response \<times> MemStorage" where
  "uploadFile extname toLowerCase i sent e st =
     (case upload_single extname toLowerCase sent of
        Inl err \<Rightarrow> (NextError err, st)
      | Inr req_file \<Rightarrow> upload_route i req_file e st)"

text \<open>
  \<open>GET /api/projects/:id/file\<close>. \<open>download\<close> is the query parameter, \<open>existsSync\<close> is
  \<open>fs.existsSync\<close>. An empty string is falsy like \<open>null\<close>.
\<close>

definition truthy :: "string option \<Rightarrow> bool" where
  "truthy s = (case s of None \<Rightarrow> False | Some v \<Rightarrow> v \<noteq> [])"

definition file_route ::
  "string \<Rightarrow> string option \<Rightarrow> (string \<Rightarrow> bool) \<Rightarrow> MemStorage \<Rightarrow> response" where
  "file_route i download existsSync st =
     (case getProject i st of
        None \<Rightarrow> Response 404 (Message ''File not found'')
      | Some project \<Rightarrow>
          if \<not> truthy (filePath project) then Response 404 (Message ''File not found'')
          else if download = Some ''true'' \<and>
                  (buyerApproved project \<noteq> Some ''true'' \<or> sellerApproved project \<noteq> Some ''true'')
          then Response 403
                 (Message ''Download not authorized. Project must be completed by both parties.'')
          else if \<not> existsSync (the (filePath project))
          then Response 404 (Message ''File not found on disk'')
          else if download = Some ''true''
          then Response 200 (FileDownload (the (filePath project))
                 (if truthy (fileName project) then the (fileName project) else ''model''))
          else Response 200 (FileInfoJson \<lparr>
                 fileName_f = fileName project,
                 fileSize_f = fileSize project,
                 fileType_f = fileType project,
                 uploadedAt_f = uploadedAt project,
                 downloadAllowed =
                   (buyerApproved project = Some ''true'' \<and> sellerApproved project = Some ''true'') \<rparr>))"

text \<open>\<open>POST /api/projects/:id/deposit\<close>.\<close>

definition deposit_route :: "string \<Rightarrow> env \<Rightarrow> MemStorage \<Rightarrow> response \<times> MemStorage" where
  "deposit_route i e st =
     (case getProject i st of
        None \<Rightarrow> (Response 404 (Message ''Project not found''), st)
      | Some project \<Rightarrow>
          (let (updatedProject, st1) =
                 updateProject i
                   (no_updates\<lparr>paymentStatus_u := Present (Some ''held''),
                               status_u := Present ''payment_deposited''\<rparr>)
                   (date_project e) st;
               (activity, st2) = createActivity
                 \<lparr> projectId_i = i,
                   description_ia = ''Escrow payment of $'' @ amount project @ '' deposited'',
                   type_ia = ''payment'' \<rparr> (uuid_activity e) (date_activity e) st1
           in (Response 200 (ProjectJson updatedProject), st2)))"

text \<open>
  \<open>POST /api/projects/:id/buyer-action\<close>. \<open>action\<close> is \<open>req.body.action\<close>, \<open>None\<close> when
  the body has no such key.
\<close>

definition buyer_action_route ::
  "string \<Rightarrow> string option \<Rightarrow> env \<Rightarrow> MemStorage \<Rightarrow> response \<times> MemStorage" where
  "buyer_action_route i action e st =
     (case getProject i st of
        None \<Rightarrow> (Response 404 (Message ''Project not found''), st)
      | Some project \<Rightarrow>
          (let updates = no_updates\<lparr>
                 buyerApproved_u :=
                   Present (Some (if action = Some ''approve'' then ''true'' else ''revision_requested'')),
                 status_u :=
                   Present (if action = Some ''approve'' then ''under_review'' else ''revision_requested'') \<rparr>;
               (updatedProject, st1) = updateProject i updates (date_project e) st;
               description = (if action = Some ''approve'' then ''Buyer approved the project''
                              else ''Buyer requested revisions'');
               (activity, st2) = createActivity
                 \<lparr> projectId_i = i, description_ia = description, type_ia = ''review'' \<rparr>
                 (uuid_activity e) (date_activity e) st1
           in (Response 200 (ProjectJson updatedProject), st2)))"

text \<open>\<open>POST /api/projects/:id/seller-approve\<close>.\<close>

definition seller_approve_route :: "string \<Rightarrow> env \<Rightarrow> MemStorage \<Rightarrow> response \<times> MemStorage" where
  "seller_approve_route i e st =
     (case getProject i st of
        None \<Rightarrow> (Response 404 (Message ''Project not found''), st)
      | Some project \<Rightarrow>
          (let shouldComplete = (buyerApproved project = Some ''true'');
               updates = no_updates\<lparr>
                 sellerApproved_u := Present (Some ''true''),
                 status_u := Present (if shouldComplete then ''completed'' else ''under_review''),
                 paymentStatus_u :=
                   Present (if shouldComplete then Some ''released'' else paymentStatus project) \<rparr>;
               (updatedProject, st1) = updateProject i updates (date_project e) st;
               description = (if shouldComplete
                              then ''Project completed - payment released to seller''
                              else ''Seller approved the project completion'');
               (activity, st2) = createActivity
                 \<lparr> projectId_i = i, description_ia = description,
                   type_ia = (if shouldComplete then ''completion'' else ''approval'') \<rparr>
                 (uuid_activity e) (date_activity e) st1
           in (Response 200 (ProjectJson updatedProject), st2)))"

text \<open>
  \<open>GET /api/projects/:id/activities\<close> and \<open>GET /api/activities/recent\<close>. \<open>parsed\<close> is
  \<open>parseInt(req.query.limit)\<close>, \<open>None\<close> for \<open>NaN\<close>; \<open>NaN || 10\<close> and \<open>0 || 10\<close> are \<open>10\<close>.
\<close>

definition activities_route :: "string \<Rightarrow> MemStorage \<Rightarrow> response" where
  "activities_route i st = Response 200 (ActivitiesJson (getActivitiesByProject i st))"

definition recent_route :: "int option \<Rightarrow> MemStorage \<Rightarrow> response" where
  "recent_route parsed st =
     (let limit = (case parsed of None \<Rightarrow> 10 | Some n \<Rightarrow> if n = 0 then 10 else n)
      in Response 200 (ActivitiesJson (getRecentActivities (Present limit) st)))"

subsection \<open>Sequences of requests\<close>

datatype request =
    PostProject "InsertProject option"
  | PatchProject string "UpdateProject option"
  | PostUpload string "File option"
  | PostDeposit string
  | PostBuyerAction string "string option"
  | PostSellerApprove string

fun handle ::
  "(string \<Rightarrow> string) \<Rightarrow> (string \<Rightarrow> string) \<Rightarrow> request \<Rightarrow> env \<Rightarrow> MemStorage
     \<Rightarrow> response \<times> MemStorage" where
  "handle extname toLowerCase (PostProject parsed) e st = create_route parsed e st"
| "handle extname toLowerCase (PatchProject i parsed) e st = update_route i parsed e st"
| "handle extname toLowerCase (PostUpload i sent) e st = uploadFile extname toLowerCase i sent e st"
| "handle extname toLowerCase (PostDeposit i) e st = deposit_route i e st"
| "handle extname toLowerCase (PostBuyerAction i action) e st = buyer_action_route i action e st"
| "handle extname toLowerCase (PostSellerApprove i) e st = seller_approve_route i e st"

fun run ::
  "(string \<Rightarrow> string) \<Rightarrow> (string \<Rightarrow> string) \<Rightarrow> (request \<times> env) list \<Rightarrow> MemStorage \<Rightarrow> MemStorage" where
  "run extname toLowerCase [] st = st"
| "run extname toLowerCase ((r, e) # rs) st =
     run extname toLowerCase rs (snd (handle extname toLowerCase r e st))"

section \<open>Notions used by the properties\<close>

text \<open>A step back along \<open>pending\<close>, \<open>held\<close>, \<open>released\<close>.\<close>

definition backward :: "string option \<Rightarrow> string option \<Rightarrow> bool" where
  "backward old new =
     (old = Some ''released'' \<and> new = Some ''held'' \<or>
      old = Some ''held'' \<and> new = Some ''pending'' \<or>
      old = Some ''released'' \<and> new = Some ''pending'')"

text \<open>
  The contract of \<open>randomUUID\<close> along a sequence of requests: the identifier drawn for a
  new project is not the key of a stored one.
\<close>

fun uuids_fresh ::
  "(string \<Rightarrow> string) \<Rightarrow> (string \<Rightarrow> string) \<Rightarrow> (request \<times> env) list \<Rightarrow> MemStorage \<Rightarrow> bool" where
  "uuids_fresh extname toLowerCase [] st = True"
| "uuids_fresh extname toLowerCase ((r, e) # rs) st =
     (uuid_project e \<notin> set (Map_keys (projects st)) \<and>
      uuids_fresh extname toLowerCase rs (snd (handle extname toLowerCase r e st)))"

text \<open>
  The clock does not run backwards: the date a request draws for a project is not
  earlier than any \<open>updatedAt\<close> in the store.
\<close>

definition not_before :: "date \<Rightarrow> Project \<Rightarrow> bool" where
  "not_before now p = (case updatedAt p of None \<Rightarrow> True | Some t \<Rightarrow> t \<le> now)"

fun clock_monotone ::
  "(string \<Rightarrow> string) \<Rightarrow> (string \<Rightarrow> string) \<Rightarrow> (request \<times> env) list \<Rightarrow> MemStorage \<Rightarrow> bool" where
  "clock_monotone extname toLowerCase [] st = True"
| "clock_monotone extname toLowerCase ((r, e) # rs) st =
     (list_all (not_before (date_project e)) (Map_values (projects st)) \<and>
      clock_monotone extname toLowerCase rs (snd (handle extname toLowerCase r e st)))"

text \<open>
  A project stored under its own identifier whose \<open>updatedAt\<close> is not before its
  \<open>createdAt\<close>.
\<close>

definition well_stamped :: "string \<Rightarrow> Project \<Rightarrow> bool" where
  "well_stamped k p =
     (id_p p = k \<and>
      (case createdAt p of
         None \<Rightarrow> False
       | Some c \<Rightarrow> (case updatedAt p of None \<Rightarrow> False | Some t \<Rightarrow> c \<le> t)))"

text \<open>Requests that neither deposit nor patch.\<close>

fun no_deposit_no_patch :: "request \<Rightarrow> bool" where
  "no_deposit_no_patch (PostDeposit i) = False"
| "no_deposit_no_patch (PatchProject i parsed) = False"
| "no_deposit_no_patch r = True"

text \<open>Non-increasing order of the sort key.\<close>

definition newest_first :: "Activity list \<Rightarrow> bool" where
  "newest_first xs = sorted_wrt (\<lambda>a b. getTime_or_0 b \<le> getTime_or_0 a) xs"

section \<open>A sample run\<close>

text \<open>
  Stand-ins for \<open>path.extname\<close> and \<open>toLowerCase\<close> that agree with them on the names
  used below (one dot, ASCII letters).
\<close>

definition extname_simple :: "string \<Rightarrow> string" where
  "extname_simple name = dropWhile (\<lambda>c. c \<noteq> CHR ''.'') name"

definition lower_ascii :: "string \<Rightarrow> string" where
  "lower_ascii s =
     map (\<lambda>c. case map_of (zip ''ABCDEFGHIJKLMNOPQRSTUVWXYZ'' ''abcdefghijklmnopqrstuvwxyz'') c of
                None \<Rightarrow> c | Some l \<Rightarrow> l) s"

definition bracket :: InsertProject where
  "bracket = \<lparr> title_i = ''Bracket'', description_i = ''A wall bracket'', amount_i = ''100.00'',
     status_i = Absent, buyerEmail_i = ''b@x.com'', sellerEmail_i = Absent,
     createdBy_i = ''buyer'', paymentStatus_i = Absent, buyerApproved_i = Absent,
     sellerApproved_i = Absent, currency_i = Absent, deadline_i = None \<rparr>"


definition part_stl :: File where
  "part_stl = \<lparr> originalname = ''part.STL'', mimetype = ''model/stl'',
     size_f = 2097152, path_f = ''uploads/file-1.STL'' \<rparr>"

definition virus_exe :: File where
  "virus_exe = \<lparr> originalname = ''virus.exe'', mimetype = ''application/octet-stream'',
     size_f = 1024, path_f = ''uploads/file-2.exe'' \<rparr>"

definition draw :: "string \<Rightarrow> string \<Rightarrow> date \<Rightarrow> env" where
  "draw pu au t = \<lparr> uuid_project = pu, uuid_activity = au, date_project = t,
     date_uploaded = t + 1, date_activity = t + 2 \<rparr>"

text \<open>The project and the log after each step of the scenario of the specification.\<close>

definition p1_created :: Project where
  "p1_created = \<lparr> id_p = ''p1'', title = ''Bracket'', description = ''A wall bracket'',
     amount = ''100.00'', status = ''created'', buyerEmail = ''b@x.com'', sellerEmail = None,
     createdBy = ''buyer'', deadline = None, fileName = None, fileSize = None, fileType = None,
     filePath = None, uploadedAt = None, paymentStatus = Some ''pending'',
     buyerApproved = Some ''false'', sellerApproved = Some ''false'', currency = Some ''USD'',
     createdAt = Some 1000, updatedAt = Some 1000 \<rparr>"

definition p1_paid :: Project where
  "p1_paid = p1_created\<lparr> paymentStatus := Some ''held'', status := ''payment_deposited'',
     updatedAt := Some 2000 \<rparr>"

definition p1_uploaded :: Project where
  "p1_uploaded = p1_paid\<lparr> status := ''file_uploaded'', updatedAt := Some 3000,
     fileName := Some ''part.STL'', fileSize := Some ''2097152'', fileType := Some ''model/stl'',
     filePath := Some ''uploads/file-1.STL'', uploadedAt := Some 3001 \<rparr>"

definition p1_reviewed :: Project where
  "p1_reviewed = p1_uploaded\<lparr> buyerApproved := Some ''true'', status := ''under_review'',
     updatedAt := Some 4000 \<rparr>"

definition p1_completed :: Project where
  "p1_completed = p1_reviewed\<lparr> sellerApproved := Some ''true'', status := ''completed'',
     paymentStatus := Some ''released'', updatedAt := Some 5000 \<rparr>"

definition logged :: "string \<Rightarrow> string \<Rightarrow> string \<Rightarrow> date \<Rightarrow> string \<times> Activity" where
  "logged i d t now =
     (i, \<lparr> id_a = i, projectId = ''p1'', description_a = d, type_a = t, createdAt_a = Some now \<rparr>)"

definition log1 :: "(string, Activity) Map" where
  "log1 = [logged ''a1'' (''Project '' @ [CHR 0x22] @ ''Bracket'' @ [CHR 0x22] @ '' created'')
             ''created'' 1002]"

definition log2 :: "(string, Activity) Map" where
  "log2 = log1 @ [logged ''a2'' ''Escrow payment of $100.00 deposited'' ''payment'' 2002]"

definition log3 :: "(string, Activity) Map" where
  "log3 = log2 @ [logged ''a3'' (''File '' @ [CHR 0x22] @ ''part.STL'' @ [CHR 0x22] @ '' uploaded'')
                    ''upload'' 3002]"

definition log4 :: "(string, Activity) Map" where
  "log4 = log3 @ [logged ''a4'' ''Buyer approved the project'' ''review'' 4002]"

definition log5 :: "(string, Activity) Map" where
  "log5 = log4 @ [logged ''a5'' ''Project completed - payment released to seller''
                    ''completion'' 5002]"

definition created :: MemStorage where
  "created = \<lparr> projects = [(''p1'', p1_created)], activities = log1 \<rparr>"

definition paid :: MemStorage where
  "paid = \<lparr> projects = [(''p1'', p1_paid)], activities = log2 \<rparr>"

definition uploaded :: MemStorage where
  "uploaded = \<lparr> projects = [(''p1'', p1_uploaded)], activities = log3 \<rparr>"

definition reviewed :: MemStorage where
  "reviewed = \<lparr> projects = [(''p1'', p1_reviewed)], activities = log4 \<rparr>"

definition completed :: MemStorage where
  "completed = \<lparr> projects = [(''p1'', p1_completed)], activities = log5 \<rparr>"

definition scenario :: "(request \<times> env) list" where
  "scenario =
     [(PostProject (Some bracket), draw ''p1'' ''a1'' 1000),
      (PostDeposit ''p1'', draw ''p2'' ''a2'' 2000),
      (PostUpload ''p1'' (Some part_stl), draw ''p3'' ''a3'' 3000),
      (PostBuyerAction ''p1'' (Some ''approve''), draw ''p4'' ''a4'' 4000),
      (PostSellerApprove ''p1'', draw ''p5'' ''a5'' 5000)]"

text \<open>The seller approves first: the uploaded project after \<open>seller-approve\<close>.\<close>

definition p1_seller_first :: Project where
  "p1_seller_first = p1_uploaded\<lparr> sellerApproved := Some ''true'', status := ''under_review'',
     updatedAt := Some 4000 \<rparr>"

definition seller_first :: MemStorage where
  "seller_first = \<lparr> projects = [(''p1'', p1_seller_first)],
     activities = log3 @ [logged ''a4'' ''Seller approved the project completion'' ''approval'' 4002] \<rparr>"

definition huge_stl :: File where
  "huge_stl = \<lparr> originalname = ''huge.stl'', mimetype = ''model/stl'',
     size_f = 52428801, path_f = ''uploads/file-3.stl'' \<rparr>"

text \<open>A disk that holds the uploaded file and nothing else.\<close>

definition on_disk :: "string \<Rightarrow> bool" where
  "on_disk p = (p = ''uploads/file-1.STL'')"

text \<open>The scenario after its first request, and its last two requests.\<close>

definition scenario_rest :: "(request \<times> env) list" where
  "scenario_rest =
     [(PostDeposit ''p1'', draw ''p2'' ''a2'' 2000),
      (PostUpload ''p1'' (Some part_stl), draw ''p3'' ''a3'' 3000),
      (PostBuyerAction ''p1'' (Some ''approve''), draw ''p4'' ''a4'' 4000),
      (PostSellerApprove ''p1'', draw ''p5'' ''a5'' 5000)]"

definition scenario_end :: "(request \<times> env) list" where
  "scenario_end =
     [(PostBuyerAction ''p1'' (Some ''approve''), draw ''p4'' ''a4'' 4000),
      (PostSellerApprove ''p1'', draw ''p5'' ''a5'' 5000)]"

section \<open>Facts about the store\<close>

lemma Map_get_set: "Map_get k (Map_set k' v m) = (if k = k' then Some v else Map_get k m)"
  by (simp add: Map_get_def Map_set_def update_conv')

lemma Map_set_fresh: "k \<notin> set (Map_keys m) \<Longrightarrow> Map_set k v m = m @ [(k, v)]"
  unfolding Map_set_def Map_keys_def by (induction m) auto

lemma Map_get_None_iff: "Map_get k m = None \<longleftrightarrow> k \<notin> set (Map_keys m)"
  unfolding Map_get_def Map_keys_def by (simp add: map_of_eq_None_iff)

lemma getProject_updateProject:
  "getProject i st = Some p \<Longrightarrow>
   updateProject i u now st =
     (Some ((spread_updates p u)\<lparr>updatedAt := Some now\<rparr>),
      st\<lparr>projects := Map_set i ((spread_updates p u)\<lparr>updatedAt := Some now\<rparr>) (projects st)\<rparr>)"
  by (simp add: updateProject_def getProject_def Let_def)

lemma updateProject_unknown: "getProject i st = None \<Longrightarrow> updateProject i u now st = (None, st)"
  by (simp add: updateProject_def getProject_def)

lemma createActivity_fresh:
  "uuid \<notin> set (Map_keys (activities st)) \<Longrightarrow>
   createActivity ia uuid now st =
     (\<lparr> id_a = uuid, projectId = projectId_i ia, description_a = description_ia ia,
        type_a = type_ia ia, createdAt_a = Some now \<rparr>,
      st\<lparr>activities := activities st @ [(uuid,
        \<lparr> id_a = uuid, projectId = projectId_i ia, description_a = description_ia ia,
        type_a = type_ia ia, createdAt_a = Some now \<rparr>)]\<rparr>)"
  by (simp add: createActivity_def Map_set_fresh Let_def)

lemma createActivity_projects: "projects (snd (createActivity ia uuid now st)) = projects st"
  by (simp add: createActivity_def Let_def)

section \<open>The sample run, step by step\<close>

lemma Number_toString_sample: "Number_toString 2097152 = ''2097152''"
  by (simp add: Number_toString.simps digit_char_def)

lemma ext_part_stl: "lower_ascii (extname_simple ''part.STL'') = ''.stl''"
  by (simp add: lower_ascii_def extname_simple_def)

lemma ext_virus_exe: "lower_ascii (extname_simple ''virus.exe'') = ''.exe''"
  by (simp add: lower_ascii_def extname_simple_def)

lemmas sample_defs = draw_def bracket_def part_stl_def p1_created_def p1_paid_def
  p1_uploaded_def p1_reviewed_def p1_completed_def p1_seller_first_def logged_def log1_def
  log2_def log3_def log4_def log5_def created_def paid_def uploaded_def reviewed_def
  completed_def seller_first_def

lemmas store_defs = createProject_def updateProject_def createActivity_def getProject_def
  Map_get_def Map_set_def Map_keys_def Map_values_def spread_updates_def no_updates_def
  new_MemStorage_def Let_def

lemma step1:
  "handle extname_simple lower_ascii (PostProject (Some bracket)) (draw ''p1'' ''a1'' 1000)
     new_MemStorage = (Response 201 (ProjectJson (Some p1_created)), created)"
  by (simp add: create_route_def store_defs sample_defs)

lemma step2:
  "handle extname_simple lower_ascii (PostDeposit ''p1'') (draw ''p2'' ''a2'' 2000) created
     = (Response 200 (ProjectJson (Some p1_paid)), paid)"
  by (simp add: deposit_route_def store_defs sample_defs)

lemma step3:
  "handle extname_simple lower_ascii (PostUpload ''p1'' (Some part_stl)) (draw ''p3'' ''a3'' 3000)
     paid = (Response 200 (ProjectJson (Some p1_uploaded)), uploaded)"
  by (simp add: uploadFile_def upload_route_def upload_single_def fileFilter_def
      allowedTypes_def fileSize_limit_def ext_part_stl Number_toString_sample
      store_defs sample_defs)

lemma step4:
  "handle extname_simple lower_ascii (PostBuyerAction ''p1'' (Some ''approve''))
     (draw ''p4'' ''a4'' 4000) uploaded = (Response 200 (ProjectJson (Some p1_reviewed)), reviewed)"
  by (simp add: buyer_action_route_def store_defs sample_defs)

lemma step5:
  "handle extname_simple lower_ascii (PostSellerApprove ''p1'') (draw ''p5'' ''a5'' 5000) reviewed
     = (Response 200 (ProjectJson (Some p1_completed)), completed)"
  by (simp add: seller_approve_route_def store_defs sample_defs)

lemma step4_seller_first:
  "handle extname_simple lower_ascii (PostSellerApprove ''p1'') (draw ''p4'' ''a4'' 4000) uploaded
     = (Response 200 (ProjectJson (Some p1_seller_first)), seller_first)"
  by (simp add: seller_approve_route_def store_defs sample_defs)

lemma scenario_run: "run extname_simple lower_ascii scenario new_MemStorage = completed"
  unfolding scenario_def by (simp only: run.simps step1 step2 step3 step4 step5 snd_conv)

lemma getProject_samples:
  "getProject ''p1'' created = Some p1_created"
  "getProject ''p1'' paid = Some p1_paid"
  "getProject ''p1'' uploaded = Some p1_uploaded"
  "getProject ''p1'' reviewed = Some p1_reviewed"
  "getProject ''p1'' completed = Some p1_completed"
  "getProject ''p1'' seller_first = Some p1_seller_first"
  "getProject ''p9'' completed = None"
  by (simp_all add: getProject_def Map_get_def created_def paid_def uploaded_def reviewed_def
      completed_def seller_first_def)

lemma log_keys:
  "Map_keys log1 = [''a1'']"
  "Map_keys log2 = [''a1'', ''a2'']"
  "Map_keys log3 = [''a1'', ''a2'', ''a3'']"
  "Map_keys log4 = [''a1'', ''a2'', ''a3'', ''a4'']"
  "Map_keys log5 = [''a1'', ''a2'', ''a3'', ''a4'', ''a5'']"
  by (simp_all add: Map_keys_def log1_def log2_def log3_def log4_def log5_def logged_def)

section \<open>Seller approval\<close>

text \<open>
  C2. For a stored project, \<open>seller-approve\<close> answers with the updated project, whose
  \<open>sellerApproved\<close> is \<open>"true"\<close>. When \<open>buyerApproved\<close> was \<open>"true"\<close> the status becomes
  \<open>"completed"\<close>, \<open>paymentStatus\<close> becomes \<open>"released"\<close> and the activity added to the log
  has type \<open>"completion"\<close>; otherwise the status becomes \<open>"under_review"\<close>, \<open>paymentStatus\<close>
  stays as it was and the activity has type \<open>"approval"\<close>. The activity is added at the end
  of the log when its identifier is a new one.
\<close>

theorem sellerApprove_effects:
  assumes "getProject i st = Some p"
    and "uuid_activity e \<notin> set (Map_keys (activities st))"
  shows "\<exists>p' a. fst (seller_approve_route i e st) = Response 200 (ProjectJson (Some p'))
     \<and> getProject i (snd (seller_approve_route i e st)) = Some p'
     \<and> activities (snd (seller_approve_route i e st)) = activities st @ [(uuid_activity e, a)]
     \<and> sellerApproved p' = Some ''true''
     \<and> projectId a = i
     \<and> (buyerApproved p = Some ''true'' \<longrightarrow>
          status p' = ''completed'' \<and> paymentStatus p' = Some ''released'' \<and> type_a a = ''completion'')
     \<and> (buyerApproved p \<noteq> Some ''true'' \<longrightarrow>
          status p' = ''under_review'' \<and> paymentStatus p' = paymentStatus p \<and> type_a a = ''approval'')"
  using assms
  by (simp add: seller_approve_route_def getProject_updateProject createActivity_fresh
      getProject_def Map_get_set spread_updates_def no_updates_def Let_def)

theorem sellerApprove_effects_witness:
  "(getProject ''p1'' reviewed = Some p1_reviewed
   \<and> uuid_activity (draw ''p5'' ''a5'' 5000) \<notin> set (Map_keys (activities reviewed))
   \<and> buyerApproved p1_reviewed = Some ''true''
   \<and> (\<exists>p' a. fst (seller_approve_route ''p1'' (draw ''p5'' ''a5'' 5000) reviewed) = Response 200 (ProjectJson (Some p'))
     \<and> getProject ''p1'' (snd (seller_approve_route ''p1'' (draw ''p5'' ''a5'' 5000) reviewed)) = Some p'
     \<and> activities (snd (seller_approve_route ''p1'' (draw ''p5'' ''a5'' 5000) reviewed)) = activities reviewed @ [(uuid_activity (draw ''p5'' ''a5'' 5000), a)]
     \<and> sellerApproved p' = Some ''true''
     \<and> projectId a = ''p1''
     \<and> (buyerApproved p1_reviewed = Some ''true'' \<longrightarrow>
          status p' = ''completed'' \<and> paymentStatus p' = Some ''released'' \<and> type_a a = ''completion'')
     \<and> (buyerApproved p1_reviewed \<noteq> Some ''true'' \<longrightarrow>
          status p' = ''under_review'' \<and> paymentStatus p' = paymentStatus p1_reviewed \<and> type_a a = ''approval'')))
   \<and> (getProject ''p1'' uploaded = Some p1_uploaded
   \<and> uuid_activity (draw ''p4'' ''a4'' 4000) \<notin> set (Map_keys (activities uploaded))
   \<and> buyerApproved p1_uploaded \<noteq> Some ''true''
   \<and> (\<exists>p' a. fst (seller_approve_route ''p1'' (draw ''p4'' ''a4'' 4000) uploaded) = Response 200 (ProjectJson (Some p'))
     \<and> getProject ''p1'' (snd (seller_approve_route ''p1'' (draw ''p4'' ''a4'' 4000) uploaded)) = Some p'
     \<and> activities (snd (seller_approve_route ''p1'' (draw ''p4'' ''a4'' 4000) uploaded)) = activities uploaded @ [(uuid_activity (draw ''p4'' ''a4'' 4000), a)]
     \<and> sellerApproved p' = Some ''true''
     \<and> projectId a = ''p1''
     \<and> (buyerApproved p1_uploaded = Some ''true'' \<longrightarrow>
          status p' = ''completed'' \<and> paymentStatus p' = Some ''released'' \<and> type_a a = ''completion'')
     \<and> (buyerApproved p1_uploaded \<noteq> Some ''true'' \<longrightarrow>
          status p' = ''under_review'' \<and> paymentStatus p' = paymentStatus p1_uploaded \<and> type_a a = ''approval'')))"
proof -
  have h1: "getProject ''p1'' reviewed = Some p1_reviewed"
    by (rule getProject_samples)
  have h2: "uuid_activity (draw ''p5'' ''a5'' 5000) \<notin> set (Map_keys (activities reviewed))"
    by (simp add: draw_def reviewed_def log_keys)
  have h3: "buyerApproved p1_reviewed = Some ''true''"
    by (simp add: sample_defs)
  have g1: "getProject ''p1'' uploaded = Some p1_uploaded"
    by (rule getProject_samples)
  have g2: "uuid_activity (draw ''p4'' ''a4'' 4000) \<notin> set (Map_keys (activities uploaded))"
    by (simp add: draw_def uploaded_def log_keys)
  have g3: "buyerApproved p1_uploaded \<noteq> Some ''true''"
    by (simp add: sample_defs)
  show ?thesis
    by (rule conjI [OF conjI [OF h1 conjI [OF h2 conjI [OF h3 sellerApprove_effects [OF h1 h2]]]]
                       conjI [OF g1 conjI [OF g2 conjI [OF g3 sellerApprove_effects [OF g1 g2]]]]])
qed

section \<open>Buyer actions\<close>

text \<open>
  C4. For a stored project that the seller has approved, \<open>buyer-action\<close> with
  \<open>approve\<close> sets \<open>buyerApproved\<close> to \<open>"true"\<close> and the status to \<open>"under_review"\<close>, not
  \<open>"completed"\<close>, and leaves \<open>paymentStatus\<close> and \<open>sellerApproved\<close> as they were. Whatever
  the action, the status after \<open>buyer-action\<close> is not \<open>"completed"\<close> and \<open>paymentStatus\<close>
  is unchanged: completion is committed by \<open>seller-approve\<close> only.
\<close>

theorem buyerApprove_never_completes:
  assumes "getProject i st = Some p"
    and "sellerApproved p = Some ''true''"
  shows "(\<exists>p'. fst (buyer_action_route i (Some ''approve'') e st) = Response 200 (ProjectJson (Some p'))
           \<and> getProject i (snd (buyer_action_route i (Some ''approve'') e st)) = Some p'
           \<and> buyerApproved p' = Some ''true''
           \<and> sellerApproved p' = Some ''true''
           \<and> status p' = ''under_review''
           \<and> status p' \<noteq> ''completed''
           \<and> paymentStatus p' = paymentStatus p)
      \<and> (\<forall>action. \<exists>q. getProject i (snd (buyer_action_route i action e st)) = Some q
           \<and> status q \<noteq> ''completed'' \<and> paymentStatus q = paymentStatus p)"
  using assms
  by (simp add: buyer_action_route_def getProject_updateProject createActivity_projects
      getProject_def Map_get_set spread_updates_def no_updates_def Let_def split_def)

theorem buyerApprove_never_completes_witness:
  "getProject ''p1'' seller_first = Some p1_seller_first
   \<and> sellerApproved p1_seller_first = Some ''true''
   \<and> ((\<exists>p'. fst (buyer_action_route ''p1'' (Some ''approve'') (draw ''p5'' ''a5'' 5000) seller_first) = Response 200 (ProjectJson (Some p'))
           \<and> getProject ''p1'' (snd (buyer_action_route ''p1'' (Some ''approve'') (draw ''p5'' ''a5'' 5000) seller_first)) = Some p'
           \<and> buyerApproved p' = Some ''true''
           \<and> sellerApproved p' = Some ''true''
           \<and> status p' = ''under_review''
           \<and> status p' \<noteq> ''completed''
           \<and> paymentStatus p' = paymentStatus p1_seller_first)
      \<and> (\<forall>action. \<exists>q. getProject ''p1'' (snd (buyer_action_route ''p1'' action (draw ''p5'' ''a5'' 5000) seller_first)) = Some q
           \<and> status q \<noteq> ''completed'' \<and> paymentStatus q = paymentStatus p1_seller_first))"
proof -
  have h1: "getProject ''p1'' seller_first = Some p1_seller_first"
    by (rule getProject_samples)
  have h2: "sellerApproved p1_seller_first = Some ''true''"
    by (simp add: sample_defs)
  show ?thesis
    by (rule conjI [OF h1 conjI [OF h2 buyerApprove_never_completes [OF h1 h2]]])
qed

text \<open>
  C10. For a stored project, \<open>buyer-action\<close> with any action other than \<open>approve\<close>
  (another string, or no action at all) does what it does for \<open>request_revision\<close>:
  \<open>buyerApproved\<close> and the status become \<open>"revision_requested"\<close> and an activity of type
  \<open>"review"\<close> is added to the log (at its end when the identifier is a new one).
\<close>

theorem buyerAction_default_is_revision:
  assumes "getProject i st = Some p"
    and "action \<noteq> Some ''approve''"
    and "uuid_activity e \<notin> set (Map_keys (activities st))"
  shows "buyer_action_route i action e st = buyer_action_route i (Some ''request_revision'') e st
     \<and> (\<exists>p' a. fst (buyer_action_route i action e st) = Response 200 (ProjectJson (Some p'))
           \<and> getProject i (snd (buyer_action_route i action e st)) = Some p'
           \<and> buyerApproved p' = Some ''revision_requested''
           \<and> status p' = ''revision_requested''
           \<and> activities (snd (buyer_action_route i action e st))
                = activities st @ [(uuid_activity e, a)]
           \<and> projectId a = i
           \<and> type_a a = ''review''
           \<and> description_a a = ''Buyer requested revisions'')"
  using assms
  by (simp add: buyer_action_route_def getProject_updateProject createActivity_fresh
      getProject_def Map_get_set spread_updates_def no_updates_def Let_def)

theorem buyerAction_default_is_revision_witness:
  "getProject ''p1'' uploaded = Some p1_uploaded
   \<and> (None :: string option) \<noteq> Some ''approve''
   \<and> uuid_activity (draw ''p4'' ''a4'' 4000) \<notin> set (Map_keys (activities uploaded))
   \<and> (buyer_action_route ''p1'' None (draw ''p4'' ''a4'' 4000) uploaded = buyer_action_route ''p1'' (Some ''request_revision'') (draw ''p4'' ''a4'' 4000) uploaded
     \<and> (\<exists>p' a. fst (buyer_action_route ''p1'' None (draw ''p4'' ''a4'' 4000) uploaded) = Response 200 (ProjectJson (Some p'))
           \<and> getProject ''p1'' (snd (buyer_action_route ''p1'' None (draw ''p4'' ''a4'' 4000) uploaded)) = Some p'
           \<and> buyerApproved p' = Some ''revision_requested''
           \<and> status p' = ''revision_requested''
           \<and> activities (snd (buyer_action_route ''p1'' None (draw ''p4'' ''a4'' 4000) uploaded))
                = activities uploaded @ [(uuid_activity (draw ''p4'' ''a4'' 4000), a)]
           \<and> projectId a = ''p1''
           \<and> type_a a = ''review''
           \<and> description_a a = ''Buyer requested revisions''))"
proof -
  have h1: "getProject ''p1'' uploaded = Some p1_uploaded"
    by (rule getProject_samples)
  have h2: "(None :: string option) \<noteq> Some ''approve''"
    by simp
  have h3: "uuid_activity (draw ''p4'' ''a4'' 4000) \<notin> set (Map_keys (activities uploaded))"
    by (simp add: draw_def uploaded_def log_keys)
  show ?thesis
    by (rule conjI [OF h1 conjI [OF h2 conjI [OF h3 buyerAction_default_is_revision [OF h1 h2 h3]]]])
qed


section \<open>Access to the file\<close>

text \<open>
  C3. For a stored project with a file path, a download request is answered with
  \<open>403\<close> exactly when \<open>buyerApproved\<close> and \<open>sellerApproved\<close> are not both \<open>"true"\<close>
  (whether or not the file is on disk, so never with \<open>404\<close> then); a request that is
  not a download request, for a file that is on disk, is answered with the metadata
  whatever the approvals are, and its \<open>downloadAllowed\<close> is true exactly when both
  approvals are \<open>"true"\<close>; a download request with both approvals, for a file on disk,
  is answered with the file.
\<close>

theorem download_gate:
  assumes "getProject i st = Some p"
    and "filePath p = Some path"
    and "path \<noteq> []"
  shows "((file_route i (Some ''true'') existsSync st =
            Response 403
              (Message ''Download not authorized. Project must be completed by both parties.''))
          = (\<not> (buyerApproved p = Some ''true'' \<and> sellerApproved p = Some ''true'')))
     \<and> (\<forall>download. download \<noteq> Some ''true'' \<and> existsSync path \<longrightarrow>
           file_route i download existsSync st =
             Response 200 (FileInfoJson \<lparr>
               fileName_f = fileName p, fileSize_f = fileSize p, fileType_f = fileType p,
               uploadedAt_f = uploadedAt p,
               downloadAllowed =
                 (buyerApproved p = Some ''true'' \<and> sellerApproved p = Some ''true'') \<rparr>))
     \<and> (buyerApproved p = Some ''true'' \<and> sellerApproved p = Some ''true'' \<and> existsSync path \<longrightarrow>
           (\<exists>name. file_route i (Some ''true'') existsSync st = Response 200 (FileDownload path name)))"
  using assms by (auto simp add: file_route_def truthy_def)

theorem download_gate_witness:
  "(getProject ''p1'' reviewed = Some p1_reviewed
    \<and> filePath p1_reviewed = Some ''uploads/file-1.STL''
    \<and> ''uploads/file-1.STL'' \<noteq> []
    \<and> \<not> (buyerApproved p1_reviewed = Some ''true'' \<and> sellerApproved p1_reviewed = Some ''true'')
    \<and> (None :: string option) \<noteq> Some ''true''
    \<and> on_disk ''uploads/file-1.STL''
    \<and> file_route ''p1'' (Some ''true'') on_disk reviewed =
         Response 403
           (Message ''Download not authorized. Project must be completed by both parties.'')
    \<and> file_route ''p1'' None on_disk reviewed =
         Response 200 (FileInfoJson \<lparr>
           fileName_f = fileName p1_reviewed, fileSize_f = fileSize p1_reviewed,
           fileType_f = fileType p1_reviewed, uploadedAt_f = uploadedAt p1_reviewed,
           downloadAllowed = False \<rparr>))
   \<and> (getProject ''p1'' completed = Some p1_completed
    \<and> filePath p1_completed = Some ''uploads/file-1.STL''
    \<and> buyerApproved p1_completed = Some ''true'' \<and> sellerApproved p1_completed = Some ''true''
    \<and> (\<exists>name. file_route ''p1'' (Some ''true'') on_disk completed =
          Response 200 (FileDownload ''uploads/file-1.STL'' name)))"
proof -
  have h1: "getProject ''p1'' reviewed = Some p1_reviewed"
    by (rule getProject_samples)
  have h2: "filePath p1_reviewed = Some ''uploads/file-1.STL''"
    by (simp add: sample_defs)
  have h3: "''uploads/file-1.STL'' \<noteq> []"
    by simp
  have h4: "\<not> (buyerApproved p1_reviewed = Some ''true'' \<and> sellerApproved p1_reviewed = Some ''true'')"
    by (simp add: sample_defs)
  have h5: "(None :: string option) \<noteq> Some ''true''"
    by simp
  have h6: "on_disk ''uploads/file-1.STL''"
    by (simp add: on_disk_def)
  have g1: "getProject ''p1'' completed = Some p1_completed"
    by (rule getProject_samples)
  have g2: "filePath p1_completed = Some ''uploads/file-1.STL''"
    by (simp add: sample_defs)
  have g4: "buyerApproved p1_completed = Some ''true'' \<and> sellerApproved p1_completed = Some ''true''"
    by (simp add: sample_defs)
  note t = download_gate [OF h1 h2 h3, of on_disk]
  from t h4 have c1: "file_route ''p1'' (Some ''true'') on_disk reviewed =
         Response 403
           (Message ''Download not authorized. Project must be completed by both parties.'')"
    by simp
  from t h4 h5 h6 have c2: "file_route ''p1'' None on_disk reviewed =
         Response 200 (FileInfoJson \<lparr>
           fileName_f = fileName p1_reviewed, fileSize_f = fileSize p1_reviewed,
           fileType_f = fileType p1_reviewed, uploadedAt_f = uploadedAt p1_reviewed,
           downloadAllowed = False \<rparr>)"
    by simp
  from download_gate [OF g1 g2 h3, of on_disk] g4 h6
  have c3: "\<exists>name. file_route ''p1'' (Some ''true'') on_disk completed =
          Response 200 (FileDownload ''uploads/file-1.STL'' name)"
    by simp
  from h1 h2 h3 h4 h5 h6 c1 c2 g1 g2 g4 c3 show ?thesis
    by (intro conjI) (rule TrueI | assumption | erule conjunct1 | erule conjunct2)+
qed

section \<open>Refused uploads\<close>

text \<open>
  C6. An upload whose file has an extension (as the filter reads it: \<open>path.extname\<close> of
  the original name, in lower case) outside \<open>.stl\<close>, \<open>.step\<close>, \<open>.obj\<close>, \<open>.ply\<close>, or
  whose size is above 50 MiB, ends with an error of the upload middleware; the store
  is the same afterwards: the project is as before and the log has no new activity.
\<close>

theorem refused_upload_changes_nothing:
  assumes "toLowerCase (extname (originalname f)) \<notin> {''.stl'', ''.step'', ''.obj'', ''.ply''}
           \<or> size_f f > 50 * 1024 * 1024"
  shows "(\<exists>err. fst (uploadFile extname toLowerCase i (Some f) e st) = NextError err)
     \<and> snd (uploadFile extname toLowerCase i (Some f) e st) = st
     \<and> getProject i (snd (uploadFile extname toLowerCase i (Some f) e st)) = getProject i st
     \<and> activities (snd (uploadFile extname toLowerCase i (Some f) e st)) = activities st"
  using assms
  by (auto simp add: uploadFile_def upload_single_def fileFilter_def allowedTypes_def
      fileSize_limit_def Let_def)

theorem refused_upload_changes_nothing_witness:
  "(lower_ascii (extname_simple (originalname virus_exe))
       \<notin> {''.stl'', ''.step'', ''.obj'', ''.ply''}
    \<and> (\<exists>err. fst (uploadFile extname_simple lower_ascii ''p1'' (Some virus_exe)
                      (draw ''p3'' ''a3'' 3000) paid) = NextError err)
    \<and> snd (uploadFile extname_simple lower_ascii ''p1'' (Some virus_exe)
              (draw ''p3'' ''a3'' 3000) paid) = paid)
   \<and> (size_f huge_stl > 50 * 1024 * 1024
    \<and> (\<exists>err. fst (uploadFile extname_simple lower_ascii ''p1'' (Some huge_stl)
                      (draw ''p3'' ''a3'' 3000) paid) = NextError err)
    \<and> snd (uploadFile extname_simple lower_ascii ''p1'' (Some huge_stl)
              (draw ''p3'' ''a3'' 3000) paid) = paid)"
proof -
  have h1: "lower_ascii (extname_simple (originalname virus_exe))
              \<notin> {''.stl'', ''.step'', ''.obj'', ''.ply''}"
    by (simp add: virus_exe_def ext_virus_exe)
  have h2: "size_f huge_stl > 50 * 1024 * 1024"
    by (simp add: huge_stl_def)
  have d1: "lower_ascii (extname_simple (originalname virus_exe))
              \<notin> {''.stl'', ''.step'', ''.obj'', ''.ply''}
            \<or> size_f virus_exe > 50 * 1024 * 1024"
    using h1 by (rule disjI1)
  have d2: "lower_ascii (extname_simple (originalname huge_stl))
              \<notin> {''.stl'', ''.step'', ''.obj'', ''.ply''}
            \<or> size_f huge_stl > 50 * 1024 * 1024"
    using h2 by (rule disjI2)
  note t1 = refused_upload_changes_nothing [where extname = extname_simple
              and toLowerCase = lower_ascii and f = virus_exe and i = "''p1''"
              and e = "draw ''p3'' ''a3'' 3000" and st = paid, OF d1]
  note t2 = refused_upload_changes_nothing [where extname = extname_simple
              and toLowerCase = lower_ascii and f = huge_stl and i = "''p1''"
              and e = "draw ''p3'' ''a3'' 3000" and st = paid, OF d2]
  show ?thesis
    by (rule conjI [OF conjI [OF h1 conjI [OF conjunct1 [OF t1] conjunct1 [OF conjunct2 [OF t1]]]]
                       conjI [OF h2 conjI [OF conjunct1 [OF t2] conjunct1 [OF conjunct2 [OF t2]]]]])
qed

section \<open>Unknown project\<close>

text \<open>
  C7, the claim as it stands fails: for an identifier that is not in the store, an
  upload with a refused file ends with the error of the middleware, and an upload
  without a file is answered with \<open>400\<close>; neither is answered with \<open>404\<close>.
\<close>

theorem unknown_id_upload_counterexample:
  "getProject ''p9'' completed = None
   \<and> fst (uploadFile extname_simple lower_ascii ''p9'' (Some virus_exe) (draw ''p6'' ''a6'' 6000)
            completed) = NextError ''Only STL, STEP, OBJ, and PLY files are allowed''
   \<and> fst (uploadFile extname_simple lower_ascii ''p9'' None (draw ''p6'' ''a6'' 6000) completed)
       = Response 400 (Message ''No file uploaded'')"
  by (simp add: getProject_samples uploadFile_def upload_single_def fileFilter_def
      allowedTypes_def upload_route_def virus_exe_def ext_virus_exe)

text \<open>
  C7, amended. For an identifier that is not in the store, \<open>deposit\<close>, \<open>buyer-action\<close>
  and \<open>seller-approve\<close> are answered with \<open>404\<close>; so is the update, given a body that
  the schema accepts, and the upload, given a file that the middleware lets through.
  None of the five changes the store, whatever the body or the file.
\<close>

theorem unknown_id_not_found:
  assumes "getProject i st = None"
  shows "deposit_route i e st = (Response 404 (Message ''Project not found''), st)
     \<and> buyer_action_route i action e st = (Response 404 (Message ''Project not found''), st)
     \<and> seller_approve_route i e st = (Response 404 (Message ''Project not found''), st)
     \<and> update_route i (Some updates) e st = (Response 404 (Message ''Project not found''), st)
     \<and> updateProject i updates now st = (None, st)
     \<and> (upload_single extname toLowerCase sent = Inr (Some f) \<longrightarrow>
          uploadFile extname toLowerCase i sent e st
            = (Response 404 (Message ''Project not found''), st))
     \<and> snd (uploadFile extname toLowerCase i sent e st) = st
     \<and> snd (update_route i parsed e st) = st"
proof -
  have u: "\<And>upd t. updateProject i upd t st = (None, st)"
    using assms by (simp add: updateProject_unknown)
  have "snd (uploadFile extname toLowerCase i sent e st) = st"
    using assms by (simp add: uploadFile_def upload_route_def split: sum.splits option.splits)
  moreover have "snd (update_route i parsed e st) = st"
    by (cases parsed) (simp_all add: update_route_def u)
  moreover have "upload_single extname toLowerCase sent = Inr (Some f) \<longrightarrow>
      uploadFile extname toLowerCase i sent e st = (Response 404 (Message ''Project not found''), st)"
    using assms by (simp add: uploadFile_def upload_route_def)
  ultimately show ?thesis
    using assms
    by (simp add: deposit_route_def buyer_action_route_def seller_approve_route_def
        update_route_def u)
qed

theorem unknown_id_not_found_witness:
  "getProject ''p9'' completed = None
   \<and> upload_single extname_simple lower_ascii (Some part_stl) = Inr (Some part_stl)
   \<and> deposit_route ''p9'' (draw ''p6'' ''a6'' 6000) completed
       = (Response 404 (Message ''Project not found''), completed)
   \<and> uploadFile extname_simple lower_ascii ''p9'' (Some part_stl) (draw ''p6'' ''a6'' 6000) completed
       = (Response 404 (Message ''Project not found''), completed)"
proof -
  have h1: "getProject ''p9'' completed = None"
    by (rule getProject_samples)
  have h2: "upload_single extname_simple lower_ascii (Some part_stl) = Inr (Some part_stl)"
    by (simp add: upload_single_def fileFilter_def allowedTypes_def fileSize_limit_def
        part_stl_def ext_part_stl)
  note t = unknown_id_not_found [OF h1, where e = "draw ''p6'' ''a6'' 6000"
             and extname = extname_simple and toLowerCase = lower_ascii
             and sent = "Some part_stl" and f = part_stl]
  from t have c1: "deposit_route ''p9'' (draw ''p6'' ''a6'' 6000) completed
       = (Response 404 (Message ''Project not found''), completed)"
    by (rule conjunct1)
  from t h2 have c2:
    "uploadFile extname_simple lower_ascii ''p9'' (Some part_stl) (draw ''p6'' ''a6'' 6000) completed
       = (Response 404 (Message ''Project not found''), completed)"
    by simp
  show ?thesis
    by (rule conjI [OF h1 conjI [OF h2 conjI [OF c1 c2]]])
qed

section \<open>Creation\<close>






section \<open>Listing activities\<close>

lemma mset_insert_cmp: "mset (insert_cmp cmp x ys) = add_mset x (mset ys)"
  by (induction ys) simp_all

lemma Array_sort_Cons: "Array_sort cmp (x # xs) = insert_cmp cmp x (Array_sort cmp xs)"
  by (simp add: Array_sort_def)

lemma mset_Array_sort: "mset (Array_sort cmp xs) = mset xs"
proof (induction xs)
  case Nil
  show ?case by (simp add: Array_sort_def)
next
  case (Cons x xs)
  then show ?case by (simp add: Array_sort_Cons mset_insert_cmp)
qed

lemma set_insert_cmp: "set (insert_cmp cmp x ys) = insert x (set ys)"
proof -
  have "set_mset (mset (insert_cmp cmp x ys)) = set_mset (add_mset x (mset ys))"
    by (simp only: mset_insert_cmp)
  then show ?thesis by simp
qed

lemma newest_first_insert:
  "newest_first ys \<Longrightarrow> newest_first (insert_cmp by_createdAt_desc x ys)"
proof (induction ys)
  case Nil
  show ?case by (simp add: newest_first_def)
next
  case (Cons y ys)
  show ?case
  proof (cases "by_createdAt_desc x y \<le> 0")
    case True
    then have "getTime_or_0 y \<le> getTime_or_0 x"
      by (simp add: by_createdAt_desc_def)
    moreover have "\<forall>z \<in> set ys. getTime_or_0 z \<le> getTime_or_0 y" and "newest_first (y # ys)"
      using Cons.prems by (simp_all add: newest_first_def)
    ultimately show ?thesis
      using True by (fastforce simp add: newest_first_def)
  next
    case False
    then have "getTime_or_0 x \<le> getTime_or_0 y"
      by (simp add: by_createdAt_desc_def)
    moreover have "newest_first (insert_cmp by_createdAt_desc x ys)"
      using Cons by (simp add: newest_first_def)
    moreover have "\<forall>z \<in> set ys. getTime_or_0 z \<le> getTime_or_0 y"
      using Cons.prems by (simp add: newest_first_def)
    ultimately show ?thesis
      using False by (simp add: newest_first_def set_insert_cmp)
  qed
qed

lemma newest_first_Array_sort: "newest_first (Array_sort by_createdAt_desc xs)"
proof (induction xs)
  case Nil
  show ?case by (simp add: Array_sort_def newest_first_def)
next
  case (Cons x xs)
  then show ?case by (simp add: Array_sort_Cons newest_first_insert)
qed

lemma newest_first_take: "newest_first xs \<Longrightarrow> newest_first (take n xs)"
  unfolding newest_first_def by (rule sorted_wrt_take)

lemma newest_first_slice: "newest_first xs \<Longrightarrow> newest_first (Array_slice0 n xs)"
  by (simp add: Array_slice0_def newest_first_take)

lemma sorted_log5:
  "Array_sort by_createdAt_desc (Map_values log5) = rev (Map_values log5)"
  by (simp add: Array_sort_def by_createdAt_desc_def getTime_or_0_def Map_values_def
      log1_def log2_def log3_def log4_def log5_def logged_def)

lemma ids_log5: "map id_a (rev (Map_values log5)) = [''a5'', ''a4'', ''a3'', ''a2'', ''a1'']"
  by (simp add: Map_values_def log1_def log2_def log3_def log4_def log5_def logged_def)

text \<open>
  C9. \<open>getActivitiesByProject\<close> returns exactly the stored activities of the project
  (each as often as it is stored), newest first. \<open>getRecentActivities\<close> with a limit
  that is a count, \<open>n \<ge> 0\<close>, returns the first \<open>n\<close> of all stored activities put
  newest first, so at most \<open>n\<close> entries; without a limit it returns the first ten, and
  so does the route for a missing or unreadable limit. Newest first is by the sort key,
  which is the \<open>createdAt\<close> time of an activity that has one.
\<close>

theorem activity_listings:
  "mset (getActivitiesByProject pid st)
     = mset (filter (\<lambda>a. projectId a = pid) (Map_values (activities st)))
   \<and> newest_first (getActivitiesByProject pid st)
   \<and> mset (Array_sort by_createdAt_desc (Map_values (activities st)))
       = mset (Map_values (activities st))
   \<and> newest_first (Array_sort by_createdAt_desc (Map_values (activities st)))
   \<and> (\<forall>n. 0 \<le> n \<longrightarrow>
         getRecentActivities (Present n) st
           = take (nat n) (Array_sort by_createdAt_desc (Map_values (activities st)))
         \<and> int (length (getRecentActivities (Present n) st)) \<le> n
         \<and> length (getRecentActivities (Present n) st)
             = min (nat n) (length (activities st)))
   \<and> getRecentActivities Absent st
       = take 10 (Array_sort by_createdAt_desc (Map_values (activities st)))
   \<and> getRecentActivities Absent st = getRecentActivities (Present 10) st
   \<and> newest_first (getRecentActivities limit st)
   \<and> recent_route None st = Response 200 (ActivitiesJson (getRecentActivities Absent st))
   \<and> (\<forall>a t. createdAt_a a = Some t \<longrightarrow> getTime_or_0 a = t)"
proof -
  have len: "length (Array_sort by_createdAt_desc (Map_values (activities st)))
               = length (activities st)"
  proof -
    have "size (mset (Array_sort by_createdAt_desc (Map_values (activities st))))
            = size (mset (Map_values (activities st)))"
      by (simp only: mset_Array_sort)
    then show ?thesis by (simp add: Map_values_def)
  qed
  have pos: "\<forall>n. 0 \<le> n \<longrightarrow>
         getRecentActivities (Present n) st
           = take (nat n) (Array_sort by_createdAt_desc (Map_values (activities st)))
         \<and> int (length (getRecentActivities (Present n) st)) \<le> n
         \<and> length (getRecentActivities (Present n) st)
             = min (nat n) (length (activities st))"
    by (auto simp add: getRecentActivities_def Array_slice0_def len)
  have key: "\<forall>a t. createdAt_a a = Some t \<longrightarrow> getTime_or_0 a = t"
    by (simp add: getTime_or_0_def)
  have route: "recent_route None st = Response 200 (ActivitiesJson (getRecentActivities Absent st))"
    by (simp add: recent_route_def getRecentActivities_def)
  have "newest_first (getRecentActivities limit st)"
    by (simp add: getRecentActivities_def newest_first_slice newest_first_Array_sort)
  moreover have "getRecentActivities Absent st
       = take 10 (Array_sort by_createdAt_desc (Map_values (activities st)))"
    "getRecentActivities Absent st = getRecentActivities (Present 10) st"
    by (simp_all add: getRecentActivities_def Array_slice0_def)
  moreover have "mset (getActivitiesByProject pid st)
     = mset (filter (\<lambda>a. projectId a = pid) (Map_values (activities st)))"
    by (simp only: getActivitiesByProject_def mset_Array_sort)
  moreover have "newest_first (getActivitiesByProject pid st)"
    by (simp only: getActivitiesByProject_def newest_first_Array_sort)
  ultimately show ?thesis
    using pos key route
    by (simp only: mset_Array_sort newest_first_Array_sort simp_thms)
qed

theorem activity_listings_witness:
  "(0::int) \<le> 2
   \<and> int (length (getRecentActivities (Present 2) completed)) \<le> 2
   \<and> getRecentActivities (Present 2) completed
       = take (nat 2) (Array_sort by_createdAt_desc (Map_values (activities completed)))
   \<and> newest_first (getActivitiesByProject ''p1'' completed)
   \<and> mset (getActivitiesByProject ''p1'' completed)
       = mset (filter (\<lambda>a. projectId a = ''p1'') (Map_values (activities completed)))"
proof -
  note t = activity_listings [of "''p1''" completed Absent]
  have h1: "(0::int) \<le> 2" by simp
  from t have "\<forall>n. 0 \<le> n \<longrightarrow>
         getRecentActivities (Present n) completed
           = take (nat n) (Array_sort by_createdAt_desc (Map_values (activities completed)))
         \<and> int (length (getRecentActivities (Present n) completed)) \<le> n
         \<and> length (getRecentActivities (Present n) completed)
             = min (nat n) (length (activities completed))"
    by (elim conjE) assumption
  then have "0 \<le> (2::int) \<longrightarrow>
         getRecentActivities (Present 2) completed
           = take (nat 2) (Array_sort by_createdAt_desc (Map_values (activities completed)))
         \<and> int (length (getRecentActivities (Present 2) completed)) \<le> 2
         \<and> length (getRecentActivities (Present 2) completed)
             = min (nat 2) (length (activities completed))"
    by (rule spec)
  with h1 have c: "getRecentActivities (Present 2) completed
           = take (nat 2) (Array_sort by_createdAt_desc (Map_values (activities completed)))
         \<and> int (length (getRecentActivities (Present 2) completed)) \<le> 2
         \<and> length (getRecentActivities (Present 2) completed)
             = min (nat 2) (length (activities completed))"
    by (elim impE) assumption
  from t have c3: "newest_first (getActivitiesByProject ''p1'' completed)"
    by (elim conjE) assumption
  from t have c4: "mset (getActivitiesByProject ''p1'' completed)
       = mset (filter (\<lambda>a. projectId a = ''p1'') (Map_values (activities completed)))"
    by (elim conjE) assumption
  show ?thesis
    by (rule conjI [OF h1 conjI [OF conjunct1 [OF conjunct2 [OF c]]
          conjI [OF conjunct1 [OF c] conjI [OF c3 c4]]]])
qed

text \<open>
  Outside the counts: a negative limit reaches \<open>slice(0, limit)\<close> unchanged and cuts
  from the end of the list, and the route reads the limit \<open>0\<close> as ten.
\<close>

lemma recent_limit_outside_counts:
  "(n < 0 \<longrightarrow>
      getRecentActivities (Present n) st
        = take (length (activities st) - nat (- n))
            (Array_sort by_createdAt_desc (Map_values (activities st))))
   \<and> recent_route (Some 0) st = Response 200 (ActivitiesJson (getRecentActivities Absent st))
   \<and> (n \<noteq> 0 \<longrightarrow>
        recent_route (Some n) st = Response 200 (ActivitiesJson (getRecentActivities (Present n) st)))"
proof -
  have len: "length (Array_sort by_createdAt_desc (Map_values (activities st)))
               = length (activities st)"
  proof -
    have "size (mset (Array_sort by_createdAt_desc (Map_values (activities st))))
            = size (mset (Map_values (activities st)))"
      by (simp only: mset_Array_sort)
    then show ?thesis by (simp add: Map_values_def)
  qed
  have "n < 0 \<longrightarrow>
      getRecentActivities (Present n) st
        = take (length (activities st) - nat (- n))
            (Array_sort by_createdAt_desc (Map_values (activities st)))"
  proof
    assume "n < 0"
    then have "nat (int (length (activities st)) + n) = length (activities st) - nat (- n)"
      by linarith
    with \<open>n < 0\<close> show "getRecentActivities (Present n) st
        = take (length (activities st) - nat (- n))
            (Array_sort by_createdAt_desc (Map_values (activities st)))"
      by (simp add: getRecentActivities_def Array_slice0_def len)
  qed
  then show ?thesis
    by (simp add: recent_route_def getRecentActivities_def)
qed

lemma recent_negative_limit_sample:
  "map id_a (getRecentActivities (Present (- 1)) completed) = [''a5'', ''a4'', ''a3'', ''a2'']"
proof -
  have "getRecentActivities (Present (- 1)) completed = take 4 (rev (Map_values log5))"
    by (simp add: getRecentActivities_def completed_def sorted_log5 Array_slice0_def)
       (simp add: Map_values_def log1_def log2_def log3_def log4_def log5_def)
  then have "map id_a (getRecentActivities (Present (- 1)) completed)
               = take 4 (map id_a (rev (Map_values log5)))"
    by (simp only: take_map)
  then show ?thesis
    by (simp add: ids_log5)
qed


section \<open>What a request does to a stored project\<close>

lemma getProject_after_updateProject:
  "getProject k (snd (updateProject i u now st)) =
     (if k = i
      then map_option (\<lambda>p. (spread_updates p u)\<lparr>updatedAt := Some now\<rparr>) (getProject i st)
      else getProject k st)"
  by (cases "Map_get i (projects st)")
     (simp_all add: updateProject_def getProject_def Map_get_set Let_def)

lemma getProject_after_createActivity:
  "getProject k (snd (createActivity ia uuid now st)) = getProject k st"
  by (simp add: createActivity_def getProject_def Let_def)

lemma getProject_after_createProject:
  "getProject k (snd (createProject ins uuid now st)) =
     (if k = uuid then Some (fst (createProject ins uuid now st)) else getProject k st)"
  by (simp add: createProject_def getProject_def Map_get_set Let_def)

lemma getProject_after_set:
  "getProject k (st\<lparr>projects := Map_set i v (projects st)\<rparr>) =
     (if k = i then Some v else getProject k st)"
  by (simp add: getProject_def Map_get_set)

lemma stored_key: "getProject k st = Some p \<Longrightarrow> k \<in> set (Map_keys (projects st))"
  using Map_get_None_iff [of k "projects st"] by (auto simp add: getProject_def)

lemma getProject_after_create_route:
  "getProject k (snd (create_route parsed e st)) =
     (case parsed of
        None \<Rightarrow> getProject k st
      | Some ins \<Rightarrow>
          if k = uuid_project e
          then Some (fst (createProject ins (uuid_project e) (date_project e) st))
          else getProject k st)"
  by (cases parsed)
     (simp_all add: create_route_def split_def Let_def getProject_after_createActivity
        getProject_after_createProject)

lemma getProject_after_update_route:
  "getProject k (snd (update_route i parsed e st)) =
     (case parsed of
        None \<Rightarrow> getProject k st
      | Some u \<Rightarrow>
          if k = i
          then map_option (\<lambda>p. (spread_updates p u)\<lparr>updatedAt := Some (date_project e)\<rparr>)
                 (getProject i st)
          else getProject k st)"
proof (cases parsed)
  case None
  then show ?thesis by (simp add: update_route_def)
next
  case (Some u)
  have "snd (update_route i (Some u) e st) = snd (updateProject i u (date_project e) st)"
    by (simp add: update_route_def split_def Let_def split: option.splits)
  with Some show ?thesis
    by (simp add: getProject_after_updateProject)
qed

lemma getProject_after_deposit_route:
  "getProject k (snd (deposit_route i e st)) =
     (if k = i
      then map_option (\<lambda>p. p\<lparr>status := ''payment_deposited'', paymentStatus := Some ''held'',
                               updatedAt := Some (date_project e)\<rparr>) (getProject i st)
      else getProject k st)"
  by (cases "getProject i st")
     (simp_all add: deposit_route_def split_def Let_def getProject_after_createActivity
        getProject_after_updateProject spread_updates_def no_updates_def)

lemma getProject_after_buyer_action_route:
  "getProject k (snd (buyer_action_route i action e st)) =
     (if k = i
      then map_option
             (\<lambda>p. p\<lparr>status := (if action = Some ''approve'' then ''under_review''
                                 else ''revision_requested''),
                     buyerApproved := Some (if action = Some ''approve'' then ''true''
                                            else ''revision_requested''),
                     updatedAt := Some (date_project e)\<rparr>) (getProject i st)
      else getProject k st)"
  by (cases "getProject i st")
     (simp_all add: buyer_action_route_def split_def Let_def getProject_after_createActivity
        getProject_after_updateProject spread_updates_def no_updates_def)

lemma getProject_after_seller_approve_route:
  "getProject k (snd (seller_approve_route i e st)) =
     (if k = i
      then map_option
             (\<lambda>p. p\<lparr>status := (if buyerApproved p = Some ''true'' then ''completed''
                                 else ''under_review''),
                     paymentStatus := (if buyerApproved p = Some ''true'' then Some ''released''
                                       else paymentStatus p),
                     sellerApproved := Some ''true'',
                     updatedAt := Some (date_project e)\<rparr>) (getProject i st)
      else getProject k st)"
  by (cases "getProject i st")
     (simp_all add: seller_approve_route_def split_def Let_def getProject_after_createActivity
        getProject_after_updateProject spread_updates_def no_updates_def)

lemma getProject_after_upload_route:
  "getProject k (snd (upload_route i req_file e st)) =
     (case req_file of
        None \<Rightarrow> getProject k st
      | Some f \<Rightarrow>
          if k = i
          then map_option
                 (\<lambda>p. p\<lparr>status := ''file_uploaded'',
                         updatedAt := Some (date_project e),
                         fileName := Some (originalname f),
                         fileSize := Some (Number_toString (size_f f)),
                         fileType := Some (mimetype f),
                         filePath := Some (path_f f),
                         uploadedAt := Some (date_uploaded e)\<rparr>) (getProject i st)
          else getProject k st)"
proof (cases req_file)
  case None
  then show ?thesis by (simp add: upload_route_def)
next
  case (Some f)
  show ?thesis
  proof (cases "getProject i st")
    case None
    with Some show ?thesis by (simp add: upload_route_def)
  next
    case (Some p)
    with \<open>req_file = Some f\<close> show ?thesis
      by (simp add: upload_route_def split_def Let_def getProject_after_createActivity
          getProject_after_updateProject getProject_after_set spread_updates_def
          no_updates_def)
  qed
qed

lemma getProject_after_uploadFile:
  "getProject k (snd (uploadFile extname toLowerCase i sent e st)) =
     (case upload_single extname toLowerCase sent of
        Inl err \<Rightarrow> getProject k st
      | Inr req_file \<Rightarrow> getProject k (snd (upload_route i req_file e st)))"
  by (simp add: uploadFile_def split: sum.splits)

text \<open>
  The step of one request, seen from a project that is in the store and is not
  overwritten by a colliding new identifier.
\<close>

lemma handle_step:
  assumes "getProject k st = Some p"
    and "uuid_project e \<notin> set (Map_keys (projects st))"
  shows "\<exists>p'. getProject k (snd (handle extname toLowerCase r e st)) = Some p'
     \<and> id_p p' = id_p p
     \<and> createdAt p' = createdAt p
     \<and> (updatedAt p' = updatedAt p \<or> updatedAt p' = Some (date_project e))
     \<and> paymentStatus p' =
         (case r of
            PostDeposit i \<Rightarrow> if i = k then Some ''held'' else paymentStatus p
          | PatchProject i parsed \<Rightarrow>
              (case parsed of
                 None \<Rightarrow> paymentStatus p
               | Some u \<Rightarrow> if i = k then spread (paymentStatus p) (paymentStatus_u u)
                           else paymentStatus p)
          | PostSellerApprove i \<Rightarrow>
              if i = k \<and> buyerApproved p = Some ''true'' then Some ''released''
              else paymentStatus p
          | _ \<Rightarrow> paymentStatus p)"
proof (cases r)
  case (PostProject parsed)
  from assms have "k \<noteq> uuid_project e"
    using stored_key by blast
  with PostProject assms(1) show ?thesis
    by (simp add: getProject_after_create_route split: option.splits)
next
  case (PatchProject i parsed)
  with assms(1) show ?thesis
    by (cases parsed) (auto simp add: getProject_after_update_route spread_updates_def)
next
  case (PostUpload i sent)
  with assms(1) show ?thesis
    by (auto simp add: getProject_after_uploadFile getProject_after_upload_route
        split: sum.splits option.splits)
next
  case (PostDeposit i)
  with assms(1) show ?thesis
    by (auto simp add: getProject_after_deposit_route)
next
  case (PostBuyerAction i action)
  with assms(1) show ?thesis
    by (auto simp add: getProject_after_buyer_action_route)
next
  case (PostSellerApprove i)
  with assms(1) show ?thesis
    by (auto simp add: getProject_after_seller_approve_route)
qed

text \<open>A project found after a request was there before, or is the one just created.\<close>

lemma handle_new:
  assumes "getProject k (snd (handle extname toLowerCase r e st)) = Some p'"
    and "getProject k st = None"
  shows "k = uuid_project e \<and> id_p p' = k
     \<and> createdAt p' = Some (date_project e) \<and> updatedAt p' = Some (date_project e)"
proof (cases r)
  case (PostProject parsed)
  with assms show ?thesis
    by (cases parsed)
       (auto simp add: getProject_after_create_route createProject_def Let_def split: if_splits)
next
  case (PatchProject i parsed)
  with assms show ?thesis
    by (cases parsed) (auto simp add: getProject_after_update_route split: if_splits)
next
  case (PostUpload i sent)
  with assms show ?thesis
    by (auto simp add: getProject_after_uploadFile getProject_after_upload_route
        split: sum.splits option.splits if_splits)
next
  case (PostDeposit i)
  with assms show ?thesis
    by (auto simp add: getProject_after_deposit_route split: if_splits)
next
  case (PostBuyerAction i action)
  with assms show ?thesis
    by (auto simp add: getProject_after_buyer_action_route split: if_splits)
next
  case (PostSellerApprove i)
  with assms show ?thesis
    by (auto simp add: getProject_after_seller_approve_route split: if_splits)
qed


section \<open>Payment status along requests\<close>

lemma not_backward_same_or_released:
  "new = old \<or> new = Some ''released'' \<Longrightarrow> \<not> backward old new"
  by (auto simp add: backward_def)

lemma step_keeps_payment:
  assumes "getProject k st = Some p"
    and "uuid_project e \<notin> set (Map_keys (projects st))"
    and "no_deposit_no_patch r"
  shows "\<exists>p'. getProject k (snd (handle extname toLowerCase r e st)) = Some p'
     \<and> (paymentStatus p' = paymentStatus p \<or> paymentStatus p' = Some ''released'')"
proof -
  from handle_step [OF assms(1,2), of extname toLowerCase r] obtain p' where
    g: "getProject k (snd (handle extname toLowerCase r e st)) = Some p'" and
    ps: "paymentStatus p' =
         (case r of
            PostDeposit i \<Rightarrow> if i = k then Some ''held'' else paymentStatus p
          | PatchProject i parsed \<Rightarrow>
              (case parsed of
                 None \<Rightarrow> paymentStatus p
               | Some u \<Rightarrow> if i = k then spread (paymentStatus p) (paymentStatus_u u)
                           else paymentStatus p)
          | PostSellerApprove i \<Rightarrow>
              if i = k \<and> buyerApproved p = Some ''true'' then Some ''released''
              else paymentStatus p
          | _ \<Rightarrow> paymentStatus p)"
    by auto
  from ps assms(3) have "paymentStatus p' = paymentStatus p \<or> paymentStatus p' = Some ''released''"
    by (cases r) (simp_all split: if_splits)
  with g show ?thesis by blast
qed

lemma run_keeps_payment:
  assumes "list_all no_deposit_no_patch (map fst rs)"
    and "uuids_fresh extname toLowerCase rs st"
    and "getProject k st = Some p"
  shows "\<exists>p'. getProject k (run extname toLowerCase rs st) = Some p'
     \<and> (paymentStatus p' = paymentStatus p \<or> paymentStatus p' = Some ''released'')"
  using assms
proof (induction rs arbitrary: st p)
  case Nil
  then show ?case by simp
next
  case (Cons re rs)
  obtain r e where re: "re = (r, e)" by (cases re)
  from Cons.prems re have r: "no_deposit_no_patch r"
    and rest: "list_all no_deposit_no_patch (map fst rs)"
    and fresh: "uuid_project e \<notin> set (Map_keys (projects st))"
    and fresh_rest: "uuids_fresh extname toLowerCase rs (snd (handle extname toLowerCase r e st))"
    by simp_all
  from step_keeps_payment [OF Cons.prems(3) fresh r, of extname toLowerCase] obtain p1 where
    g1: "getProject k (snd (handle extname toLowerCase r e st)) = Some p1" and
    ps1: "paymentStatus p1 = paymentStatus p \<or> paymentStatus p1 = Some ''released''"
    by blast
  from Cons.IH [OF rest fresh_rest g1] obtain p' where
    g: "getProject k (run extname toLowerCase rs (snd (handle extname toLowerCase r e st))) = Some p'"
    and ps: "paymentStatus p' = paymentStatus p1 \<or> paymentStatus p' = Some ''released''"
    by blast
  from ps ps1 have "paymentStatus p' = paymentStatus p \<or> paymentStatus p' = Some ''released''"
    by auto
  with g re show ?case by simp
qed

text \<open>
  C1, the claim as it stands fails: after the scenario of the specification the
  payment of the project is released, and a deposit on it puts it back to held.
\<close>

theorem deposit_after_release_counterexample:
  "run extname_simple lower_ascii scenario new_MemStorage = completed
   \<and> map_option paymentStatus (getProject ''p1'' completed) = Some (Some ''released'')
   \<and> map_option paymentStatus
       (getProject ''p1'' (snd (handle extname_simple lower_ascii (PostDeposit ''p1'')
                                  (draw ''p6'' ''a6'' 6000) completed)))
       = Some (Some ''held'')
   \<and> backward (Some ''released'') (Some ''held'')"
  by (simp add: scenario_run getProject_after_deposit_route getProject_samples backward_def)
     (simp add: sample_defs)

lemma step_payment_unchanged:
  assumes "getProject k st = Some p"
    and "uuid_project e \<notin> set (Map_keys (projects st))"
    and "no_deposit_no_patch r"
    and "r \<noteq> PostSellerApprove k"
  shows "\<exists>p'. getProject k (snd (handle extname toLowerCase r e st)) = Some p'
     \<and> paymentStatus p' = paymentStatus p"
proof -
  from handle_step [OF assms(1,2), of extname toLowerCase r] obtain p' where
    g: "getProject k (snd (handle extname toLowerCase r e st)) = Some p'" and
    ps: "paymentStatus p' =
         (case r of
            PostDeposit i \<Rightarrow> if i = k then Some ''held'' else paymentStatus p
          | PatchProject i parsed \<Rightarrow>
              (case parsed of
                 None \<Rightarrow> paymentStatus p
               | Some u \<Rightarrow> if i = k then spread (paymentStatus p) (paymentStatus_u u)
                           else paymentStatus p)
          | PostSellerApprove i \<Rightarrow>
              if i = k \<and> buyerApproved p = Some ''true'' then Some ''released''
              else paymentStatus p
          | _ \<Rightarrow> paymentStatus p)"
    by auto
  from ps assms(3,4) have "paymentStatus p' = paymentStatus p"
    by (cases r) (simp_all split: if_splits)
  with g show ?thesis by blast
qed

lemma run_payment_unchanged:
  assumes "list_all no_deposit_no_patch (map fst rs)"
    and "PostSellerApprove k \<notin> set (map fst rs)"
    and "uuids_fresh extname toLowerCase rs st"
    and "getProject k st = Some p"
  shows "\<exists>p'. getProject k (run extname toLowerCase rs st) = Some p'
     \<and> paymentStatus p' = paymentStatus p"
  using assms
proof (induction rs arbitrary: st p)
  case Nil
  then show ?case by simp
next
  case (Cons re rs)
  obtain r e where re: "re = (r, e)" by (cases re)
  from Cons.prems re have r: "no_deposit_no_patch r" "r \<noteq> PostSellerApprove k"
    and rest: "list_all no_deposit_no_patch (map fst rs)" "PostSellerApprove k \<notin> set (map fst rs)"
    and fresh: "uuid_project e \<notin> set (Map_keys (projects st))"
    and fresh_rest: "uuids_fresh extname toLowerCase rs (snd (handle extname toLowerCase r e st))"
    by auto
  from step_payment_unchanged [OF Cons.prems(4) fresh r, of extname toLowerCase] obtain p1 where
    g1: "getProject k (snd (handle extname toLowerCase r e st)) = Some p1" and
    ps1: "paymentStatus p1 = paymentStatus p"
    by blast
  from Cons.IH [OF rest fresh_rest g1] obtain p' where
    g: "getProject k (run extname toLowerCase rs (snd (handle extname toLowerCase r e st))) = Some p'"
    and ps: "paymentStatus p' = paymentStatus p1"
    by blast
  with g ps1 re show ?case by simp
qed

text \<open>
  C1, amended. For a stored project: creation (with an unused identifier), upload and
  buyer action leave \<open>paymentStatus\<close> as it is; seller approval of the project sets it to
  \<open>"released"\<close> when the buyer has approved and leaves it otherwise; so none of the four
  moves it back, and along every sequence of such requests it stays as it is, or, when
  the sequence has a seller approval of the project, stays or becomes \<open>"released"\<close>.
  A deposit on the project sets \<open>paymentStatus\<close> to \<open>"held"\<close> whatever it was; an accepted
  update of the project sets it to the value of its payload when the payload has one,
  and leaves it otherwise; deposits and updates of other projects leave it.
\<close>

theorem paymentStatus_moves:
  assumes "getProject k st = Some p"
    and "uuid_project e \<notin> set (Map_keys (projects st))"
  shows "(\<exists>p'. getProject k (snd (handle extname toLowerCase r e st)) = Some p'
           \<and> ((\<exists>parsed. r = PostProject parsed) \<or> (\<exists>i sent. r = PostUpload i sent)
                \<or> (\<exists>i action. r = PostBuyerAction i action) \<longrightarrow>
                paymentStatus p' = paymentStatus p)
           \<and> (\<forall>i. r = PostSellerApprove i \<longrightarrow>
                paymentStatus p' =
                  (if i = k \<and> buyerApproved p = Some ''true'' then Some ''released''
                   else paymentStatus p))
           \<and> (no_deposit_no_patch r \<longrightarrow> \<not> backward (paymentStatus p) (paymentStatus p'))
           \<and> (r = PostDeposit k \<longrightarrow> paymentStatus p' = Some ''held'')
           \<and> (\<forall>u v. r = PatchProject k (Some u) \<and> paymentStatus_u u = Present v \<longrightarrow>
                paymentStatus p' = v)
           \<and> (\<forall>u. r = PatchProject k (Some u) \<and> paymentStatus_u u = Absent \<longrightarrow>
                paymentStatus p' = paymentStatus p)
           \<and> (\<forall>i parsed. i \<noteq> k \<and> (r = PostDeposit i \<or> r = PatchProject i parsed) \<longrightarrow>
                paymentStatus p' = paymentStatus p))
     \<and> (\<forall>rs. list_all no_deposit_no_patch (map fst rs)
              \<and> uuids_fresh extname toLowerCase rs st \<longrightarrow>
           (\<exists>p'. getProject k (run extname toLowerCase rs st) = Some p'
              \<and> (PostSellerApprove k \<notin> set (map fst rs) \<longrightarrow>
                   paymentStatus p' = paymentStatus p)
              \<and> (paymentStatus p' = paymentStatus p \<or> paymentStatus p' = Some ''released'')
              \<and> \<not> backward (paymentStatus p) (paymentStatus p')))"
proof (rule conjI)
  from handle_step [OF assms, of extname toLowerCase r] obtain p' where
    g: "getProject k (snd (handle extname toLowerCase r e st)) = Some p'" and
    ps: "paymentStatus p' =
         (case r of
            PostDeposit i \<Rightarrow> if i = k then Some ''held'' else paymentStatus p
          | PatchProject i parsed \<Rightarrow>
              (case parsed of
                 None \<Rightarrow> paymentStatus p
               | Some u \<Rightarrow> if i = k then spread (paymentStatus p) (paymentStatus_u u)
                           else paymentStatus p)
          | PostSellerApprove i \<Rightarrow>
              if i = k \<and> buyerApproved p = Some ''true'' then Some ''released''
              else paymentStatus p
          | _ \<Rightarrow> paymentStatus p)"
    by auto
  have a1: "(\<exists>parsed. r = PostProject parsed) \<or> (\<exists>i sent. r = PostUpload i sent)
                \<or> (\<exists>i action. r = PostBuyerAction i action) \<longrightarrow>
                paymentStatus p' = paymentStatus p"
    using ps by auto
  have a2: "\<forall>i. r = PostSellerApprove i \<longrightarrow>
                paymentStatus p' =
                  (if i = k \<and> buyerApproved p = Some ''true'' then Some ''released''
                   else paymentStatus p)"
    using ps by simp
  have a3: "no_deposit_no_patch r \<longrightarrow> \<not> backward (paymentStatus p) (paymentStatus p')"
  proof
    assume "no_deposit_no_patch r"
    with ps have "paymentStatus p' = paymentStatus p \<or> paymentStatus p' = Some ''released''"
      by (cases r) (simp_all split: if_splits)
    then show "\<not> backward (paymentStatus p) (paymentStatus p')"
      by (rule not_backward_same_or_released)
  qed
  have b: "r = PostDeposit k \<longrightarrow> paymentStatus p' = Some ''held''"
    using ps by simp
  have c: "\<forall>u v. r = PatchProject k (Some u) \<and> paymentStatus_u u = Present v \<longrightarrow>
                paymentStatus p' = v"
    using ps by simp
  have d: "\<forall>u. r = PatchProject k (Some u) \<and> paymentStatus_u u = Absent \<longrightarrow>
                paymentStatus p' = paymentStatus p"
    using ps by simp
  have f: "\<forall>i parsed. i \<noteq> k \<and> (r = PostDeposit i \<or> r = PatchProject i parsed) \<longrightarrow>
                paymentStatus p' = paymentStatus p"
    using ps by (auto split: option.splits)
  from g a1 a2 a3 b c d f
  show "\<exists>p'. getProject k (snd (handle extname toLowerCase r e st)) = Some p'
           \<and> ((\<exists>parsed. r = PostProject parsed) \<or> (\<exists>i sent. r = PostUpload i sent)
                \<or> (\<exists>i action. r = PostBuyerAction i action) \<longrightarrow>
                paymentStatus p' = paymentStatus p)
           \<and> (\<forall>i. r = PostSellerApprove i \<longrightarrow>
                paymentStatus p' =
                  (if i = k \<and> buyerApproved p = Some ''true'' then Some ''released''
                   else paymentStatus p))
           \<and> (no_deposit_no_patch r \<longrightarrow> \<not> backward (paymentStatus p) (paymentStatus p'))
           \<and> (r = PostDeposit k \<longrightarrow> paymentStatus p' = Some ''held'')
           \<and> (\<forall>u v. r = PatchProject k (Some u) \<and> paymentStatus_u u = Present v \<longrightarrow>
                paymentStatus p' = v)
           \<and> (\<forall>u. r = PatchProject k (Some u) \<and> paymentStatus_u u = Absent \<longrightarrow>
                paymentStatus p' = paymentStatus p)
           \<and> (\<forall>i parsed. i \<noteq> k \<and> (r = PostDeposit i \<or> r = PatchProject i parsed) \<longrightarrow>
                paymentStatus p' = paymentStatus p)"
    by (intro exI [of _ p'] conjI)
next
  show "\<forall>rs. list_all no_deposit_no_patch (map fst rs)
              \<and> uuids_fresh extname toLowerCase rs st \<longrightarrow>
           (\<exists>p'. getProject k (run extname toLowerCase rs st) = Some p'
              \<and> (PostSellerApprove k \<notin> set (map fst rs) \<longrightarrow>
                   paymentStatus p' = paymentStatus p)
              \<and> (paymentStatus p' = paymentStatus p \<or> paymentStatus p' = Some ''released'')
              \<and> \<not> backward (paymentStatus p) (paymentStatus p'))"
  proof (intro allI impI)
    fix rs
    assume h: "list_all no_deposit_no_patch (map fst rs)
               \<and> uuids_fresh extname toLowerCase rs st"
    from run_keeps_payment [OF conjunct1 [OF h] conjunct2 [OF h] assms(1)] obtain p' where
      g: "getProject k (run extname toLowerCase rs st) = Some p'" and
      ps: "paymentStatus p' = paymentStatus p \<or> paymentStatus p' = Some ''released''"
      by blast
    have same: "PostSellerApprove k \<notin> set (map fst rs) \<longrightarrow> paymentStatus p' = paymentStatus p"
    proof
      assume "PostSellerApprove k \<notin> set (map fst rs)"
      from run_payment_unchanged [OF conjunct1 [OF h] this conjunct2 [OF h] assms(1)] g
      show "paymentStatus p' = paymentStatus p"
        by auto
    qed
    from ps have nb: "\<not> backward (paymentStatus p) (paymentStatus p')"
      by (rule not_backward_same_or_released)
    from g same ps nb
    show "\<exists>p'. getProject k (run extname toLowerCase rs st) = Some p'
              \<and> (PostSellerApprove k \<notin> set (map fst rs) \<longrightarrow>
                   paymentStatus p' = paymentStatus p)
              \<and> (paymentStatus p' = paymentStatus p \<or> paymentStatus p' = Some ''released'')
              \<and> \<not> backward (paymentStatus p) (paymentStatus p')"
      by (intro exI [of _ p'] conjI)
  qed
qed

lemma scenario_end_fresh: "uuids_fresh extname_simple lower_ascii scenario_end uploaded"
  by (simp only: scenario_end_def uuids_fresh.simps step4 step5 snd_conv)
     (simp add: draw_def Map_keys_def uploaded_def reviewed_def)

theorem paymentStatus_moves_witness:
  "getProject ''p1'' uploaded = Some p1_uploaded
   \<and> uuid_project (draw ''p4'' ''a4'' 4000) \<notin> set (Map_keys (projects uploaded))
   \<and> (\<exists>p'. getProject ''p1''
              (snd (handle extname_simple lower_ascii (PostBuyerAction ''p1'' (Some ''approve''))
                      (draw ''p4'' ''a4'' 4000) uploaded)) = Some p'
          \<and> paymentStatus p' = paymentStatus p1_uploaded)
   \<and> list_all no_deposit_no_patch (map fst scenario_end)
   \<and> uuids_fresh extname_simple lower_ascii scenario_end uploaded
   \<and> (\<exists>p'. getProject ''p1'' (run extname_simple lower_ascii scenario_end uploaded) = Some p'
          \<and> (paymentStatus p' = paymentStatus p1_uploaded \<or> paymentStatus p' = Some ''released'')
          \<and> \<not> backward (paymentStatus p1_uploaded) (paymentStatus p'))"
proof -
  have h1: "getProject ''p1'' uploaded = Some p1_uploaded"
    by (rule getProject_samples)
  have h2: "uuid_project (draw ''p4'' ''a4'' 4000) \<notin> set (Map_keys (projects uploaded))"
    by (simp add: draw_def Map_keys_def uploaded_def)
  have h3: "list_all no_deposit_no_patch (map fst scenario_end)"
    by (simp add: scenario_end_def)
  have h4: "uuids_fresh extname_simple lower_ascii scenario_end uploaded"
    by (rule scenario_end_fresh)
  note t = paymentStatus_moves [OF h1 h2, where extname = extname_simple
             and toLowerCase = lower_ascii and r = "PostBuyerAction ''p1'' (Some ''approve'')"]
  from conjunct1 [OF t] have s: "\<exists>p'. getProject ''p1''
              (snd (handle extname_simple lower_ascii (PostBuyerAction ''p1'' (Some ''approve''))
                      (draw ''p4'' ''a4'' 4000) uploaded)) = Some p'
          \<and> paymentStatus p' = paymentStatus p1_uploaded"
    by (elim exE conjE) simp
  from conjunct2 [OF t] have "list_all no_deposit_no_patch (map fst scenario_end)
              \<and> uuids_fresh extname_simple lower_ascii scenario_end uploaded \<longrightarrow>
           (\<exists>p'. getProject ''p1'' (run extname_simple lower_ascii scenario_end uploaded) = Some p'
              \<and> (PostSellerApprove ''p1'' \<notin> set (map fst scenario_end) \<longrightarrow>
                   paymentStatus p' = paymentStatus p1_uploaded)
              \<and> (paymentStatus p' = paymentStatus p1_uploaded
                   \<or> paymentStatus p' = Some ''released'')
              \<and> \<not> backward (paymentStatus p1_uploaded) (paymentStatus p'))"
    by (rule spec)
  then have "\<exists>p'. getProject ''p1'' (run extname_simple lower_ascii scenario_end uploaded) = Some p'
              \<and> (PostSellerApprove ''p1'' \<notin> set (map fst scenario_end) \<longrightarrow>
                   paymentStatus p' = paymentStatus p1_uploaded)
              \<and> (paymentStatus p' = paymentStatus p1_uploaded
                   \<or> paymentStatus p' = Some ''released'')
              \<and> \<not> backward (paymentStatus p1_uploaded) (paymentStatus p')"
    using conjI [OF h3 h4] by (rule mp)
  then have c: "\<exists>p'. getProject ''p1'' (run extname_simple lower_ascii scenario_end uploaded) = Some p'
              \<and> (paymentStatus p' = paymentStatus p1_uploaded
                   \<or> paymentStatus p' = Some ''released'')
              \<and> \<not> backward (paymentStatus p1_uploaded) (paymentStatus p')"
    by (elim exE conjE) (rule exI, intro conjI, assumption+)
  show ?thesis
    by (rule conjI [OF h1 conjI [OF h2 conjI [OF s conjI [OF h3 conjI [OF h4 c]]]]])
qed


section \<open>Timestamps along requests\<close>

lemma stored_value: "getProject k st = Some p \<Longrightarrow> p \<in> set (Map_values (projects st))"
proof -
  assume "getProject k st = Some p"
  then have "(k, p) \<in> set (projects st)"
    by (simp add: getProject_def Map_get_def map_of_SomeD)
  then show ?thesis
    by (force simp add: Map_values_def)
qed

lemma step_timestamps:
  assumes "getProject k st = Some p"
    and "uuid_project e \<notin> set (Map_keys (projects st))"
    and "not_before (date_project e) p"
  shows "\<exists>p'. getProject k (snd (handle extname toLowerCase r e st)) = Some p'
     \<and> id_p p' = id_p p
     \<and> createdAt p' = createdAt p
     \<and> (\<forall>t. updatedAt p = Some t \<longrightarrow> (\<exists>t'. updatedAt p' = Some t' \<and> t \<le> t'))"
proof -
  from handle_step [OF assms(1,2), of extname toLowerCase r] obtain p' where
    g: "getProject k (snd (handle extname toLowerCase r e st)) = Some p'"
    and i: "id_p p' = id_p p" and c: "createdAt p' = createdAt p"
    and u: "updatedAt p' = updatedAt p \<or> updatedAt p' = Some (date_project e)"
    by blast
  from u assms(3) have "\<forall>t. updatedAt p = Some t \<longrightarrow> (\<exists>t'. updatedAt p' = Some t' \<and> t \<le> t')"
    by (auto simp add: not_before_def)
  with g i c show ?thesis by blast
qed

lemma run_timestamps:
  assumes "uuids_fresh extname toLowerCase rs st"
    and "clock_monotone extname toLowerCase rs st"
    and "getProject k st = Some p"
  shows "\<exists>p'. getProject k (run extname toLowerCase rs st) = Some p'
     \<and> id_p p' = id_p p
     \<and> createdAt p' = createdAt p
     \<and> (\<forall>t. updatedAt p = Some t \<longrightarrow> (\<exists>t'. updatedAt p' = Some t' \<and> t \<le> t'))"
  using assms
proof (induction rs arbitrary: st p)
  case Nil
  then show ?case by simp
next
  case (Cons re rs)
  obtain r e where re: "re = (r, e)" by (cases re)
  let ?st1 = "snd (handle extname toLowerCase r e st)"
  from Cons.prems re have fresh: "uuid_project e \<notin> set (Map_keys (projects st))"
    and fresh_rest: "uuids_fresh extname toLowerCase rs ?st1"
    and clock: "list_all (not_before (date_project e)) (Map_values (projects st))"
    and clock_rest: "clock_monotone extname toLowerCase rs ?st1"
    by simp_all
  from clock stored_value [OF Cons.prems(3)] have nb: "not_before (date_project e) p"
    by (simp add: list_all_iff)
  from step_timestamps [OF Cons.prems(3) fresh nb, of extname toLowerCase r] obtain p1 where
    g1: "getProject k ?st1 = Some p1"
    and i1: "id_p p1 = id_p p" and c1: "createdAt p1 = createdAt p"
    and u1: "\<forall>t. updatedAt p = Some t \<longrightarrow> (\<exists>t'. updatedAt p1 = Some t' \<and> t \<le> t')"
    by blast
  from Cons.IH [OF fresh_rest clock_rest g1] obtain p' where
    g: "getProject k (run extname toLowerCase rs ?st1) = Some p'"
    and i: "id_p p' = id_p p1" and c: "createdAt p' = createdAt p1"
    and u: "\<forall>t. updatedAt p1 = Some t \<longrightarrow> (\<exists>t'. updatedAt p' = Some t' \<and> t \<le> t')"
    by blast
  have "\<forall>t. updatedAt p = Some t \<longrightarrow> (\<exists>t'. updatedAt p' = Some t' \<and> t \<le> t')"
  proof (intro allI impI)
    fix t
    assume "updatedAt p = Some t"
    with u1 obtain t1 where "updatedAt p1 = Some t1" "t \<le> t1" by blast
    moreover with u obtain t' where "updatedAt p' = Some t'" "t1 \<le> t'" by blast
    ultimately show "\<exists>t'. updatedAt p' = Some t' \<and> t \<le> t'" by auto
  qed
  with g i c i1 c1 re show ?case by simp
qed

lemma well_stamped_later:
  assumes "well_stamped k p"
    and "id_p p' = id_p p"
    and "createdAt p' = createdAt p"
    and "\<forall>t. updatedAt p = Some t \<longrightarrow> (\<exists>t'. updatedAt p' = Some t' \<and> t \<le> t')"
  shows "well_stamped k p'"
  using assms by (auto simp add: well_stamped_def split: option.splits)

lemma step_well_stamped:
  assumes inv: "\<forall>k p. getProject k st = Some p \<longrightarrow> well_stamped k p"
    and fresh: "uuid_project e \<notin> set (Map_keys (projects st))"
    and clock: "list_all (not_before (date_project e)) (Map_values (projects st))"
    and g: "getProject k (snd (handle extname toLowerCase r e st)) = Some p'"
  shows "well_stamped k p'"
proof (cases "getProject k st")
  case None
  from handle_new [OF g None] show ?thesis
    by (simp add: well_stamped_def)
next
  case (Some p)
  from clock stored_value [OF Some] have nb: "not_before (date_project e) p"
    by (simp add: list_all_iff)
  from step_timestamps [OF Some fresh nb, of extname toLowerCase r] g
  have "id_p p' = id_p p" "createdAt p' = createdAt p"
    "\<forall>t. updatedAt p = Some t \<longrightarrow> (\<exists>t'. updatedAt p' = Some t' \<and> t \<le> t')"
    by auto
  moreover from inv Some have "well_stamped k p" by blast
  ultimately show ?thesis by (rule well_stamped_later [rotated])
qed

lemma run_well_stamped:
  assumes "\<forall>k p. getProject k st = Some p \<longrightarrow> well_stamped k p"
    and "uuids_fresh extname toLowerCase rs st"
    and "clock_monotone extname toLowerCase rs st"
  shows "\<forall>k p. getProject k (run extname toLowerCase rs st) = Some p \<longrightarrow> well_stamped k p"
  using assms
proof (induction rs arbitrary: st)
  case Nil
  then show ?case by simp
next
  case (Cons re rs)
  obtain r e where re: "re = (r, e)" by (cases re)
  let ?st1 = "snd (handle extname toLowerCase r e st)"
  from Cons.prems re have fresh: "uuid_project e \<notin> set (Map_keys (projects st))"
    and fresh_rest: "uuids_fresh extname toLowerCase rs ?st1"
    and clock: "list_all (not_before (date_project e)) (Map_values (projects st))"
    and clock_rest: "clock_monotone extname toLowerCase rs ?st1"
    by simp_all
  have "\<forall>k p. getProject k ?st1 = Some p \<longrightarrow> well_stamped k p"
    using step_well_stamped [OF Cons.prems(1) fresh clock] by blast
  from Cons.IH [OF this fresh_rest clock_rest] re show ?case by simp
qed

lemma empty_well_stamped: "\<forall>k p. getProject k new_MemStorage = Some p \<longrightarrow> well_stamped k p"
  by (simp add: getProject_def Map_get_def new_MemStorage_def)

lemma run_keeps_ids:
  assumes "uuids_fresh extname toLowerCase rs st"
    and "getProject k st = Some p"
  shows "\<exists>p'. getProject k (run extname toLowerCase rs st) = Some p'
     \<and> id_p p' = id_p p
     \<and> createdAt p' = createdAt p"
  using assms
proof (induction rs arbitrary: st p)
  case Nil
  then show ?case by simp
next
  case (Cons re rs)
  obtain r e where re: "re = (r, e)" by (cases re)
  let ?st1 = "snd (handle extname toLowerCase r e st)"
  from Cons.prems re have fresh: "uuid_project e \<notin> set (Map_keys (projects st))"
    and fresh_rest: "uuids_fresh extname toLowerCase rs ?st1"
    by simp_all
  from handle_step [OF Cons.prems(2) fresh, of extname toLowerCase r] obtain p1 where
    g1: "getProject k ?st1 = Some p1"
    and i1: "id_p p1 = id_p p" and c1: "createdAt p1 = createdAt p"
    by blast
  from Cons.IH [OF fresh_rest g1] obtain p' where
    "getProject k (run extname toLowerCase rs ?st1) = Some p'"
    "id_p p' = id_p p1" "createdAt p' = createdAt p1"
    by blast
  with i1 c1 re show ?case by simp
qed

text \<open>A request that reaches \<open>updateProject\<close> for the project writes the clock reading.\<close>

lemma handle_writes_clock:
  assumes "getProject k st = Some p"
    and "r = PostDeposit k \<or> (\<exists>action. r = PostBuyerAction k action) \<or> r = PostSellerApprove k
         \<or> (\<exists>u. r = PatchProject k (Some u))
         \<or> (\<exists>sent f. r = PostUpload k sent \<and> upload_single extname toLowerCase sent = Inr (Some f))"
  shows "\<exists>p'. getProject k (snd (handle extname toLowerCase r e st)) = Some p'
     \<and> updatedAt p' = Some (date_project e)"
  using assms
  by (auto simp add: getProject_after_deposit_route getProject_after_buyer_action_route
      getProject_after_seller_approve_route getProject_after_update_route
      getProject_after_uploadFile getProject_after_upload_route)

text \<open>
  C8, the claim as it stands fails: \<open>updateProject\<close> writes the clock reading without
  comparing it with the stored time. With a reading of 500 the deposit on the project
  created at 1000 leaves \<open>updatedAt\<close> below its previous value and below \<open>createdAt\<close>.
\<close>

theorem clock_backwards_counterexample:
  "getProject ''p1'' created = Some p1_created
   \<and> createdAt p1_created = Some 1000
   \<and> updatedAt p1_created = Some 1000
   \<and> map_option updatedAt
       (getProject ''p1'' (snd (handle extname_simple lower_ascii (PostDeposit ''p1'')
                                  (draw ''p2'' ''a2'' 500) created)))
       = Some (Some 500)
   \<and> map_option createdAt
       (getProject ''p1'' (snd (handle extname_simple lower_ascii (PostDeposit ''p1'')
                                  (draw ''p2'' ''a2'' 500) created)))
       = Some (Some 1000)
   \<and> \<not> (1000::int) \<le> 500"
  by (simp add: getProject_after_deposit_route getProject_samples)
     (simp add: p1_created_def draw_def)

text \<open>
  C8, amended. A created project has \<open>updatedAt\<close> equal to \<open>createdAt\<close>. Every update
  of a stored project keeps its \<open>id\<close> and \<open>createdAt\<close> and sets \<open>updatedAt\<close> to the clock
  reading of the update, and so does every request that reaches the update. Along every
  sequence of requests (whose generated project identifiers are unused) a stored project
  keeps its \<open>id\<close> and \<open>createdAt\<close>. When, in addition, no clock reading of the sequence
  is before an \<open>updatedAt\<close> in the store, \<open>updatedAt\<close> does not decrease and
  \<open>updatedAt \<ge> createdAt\<close> is kept; it then holds for every project of every store
  that such a sequence builds from the empty store.
\<close>

theorem timestamps_ordered:
  assumes "getProject k st = Some p"
    and "uuids_fresh extname toLowerCase rs st"
  shows "(\<exists>p'. getProject k (run extname toLowerCase rs st) = Some p'
           \<and> id_p p' = id_p p
           \<and> createdAt p' = createdAt p
           \<and> (clock_monotone extname toLowerCase rs st \<longrightarrow>
                (\<forall>t. updatedAt p = Some t \<longrightarrow> (\<exists>t'. updatedAt p' = Some t' \<and> t \<le> t'))
                \<and> (well_stamped k p \<longrightarrow> well_stamped k p')))
     \<and> createdAt (fst (createProject ins uuid now st)) = Some now
     \<and> updatedAt (fst (createProject ins uuid now st))
         = createdAt (fst (createProject ins uuid now st))
     \<and> (\<exists>q. updateProject k u now st = (Some q, st\<lparr>projects := Map_set k q (projects st)\<rparr>)
           \<and> id_p q = id_p p \<and> createdAt q = createdAt p \<and> updatedAt q = Some now)
     \<and> (\<forall>r e. r = PostDeposit k \<or> (\<exists>action. r = PostBuyerAction k action)
              \<or> r = PostSellerApprove k \<or> (\<exists>u. r = PatchProject k (Some u))
              \<or> (\<exists>sent f. r = PostUpload k sent
                    \<and> upload_single extname toLowerCase sent = Inr (Some f))
           \<longrightarrow> (\<exists>p1. getProject k (snd (handle extname toLowerCase r e st)) = Some p1
                  \<and> updatedAt p1 = Some (date_project e)))
     \<and> (\<forall>rs0 j q. uuids_fresh extname toLowerCase rs0 new_MemStorage
             \<and> clock_monotone extname toLowerCase rs0 new_MemStorage
             \<and> getProject j (run extname toLowerCase rs0 new_MemStorage) = Some q
           \<longrightarrow> well_stamped j q)"
proof -
  from run_keeps_ids [OF assms(2,1)] obtain p' where
    g: "getProject k (run extname toLowerCase rs st) = Some p'"
    and i: "id_p p' = id_p p" and c: "createdAt p' = createdAt p"
    by blast
  have m: "clock_monotone extname toLowerCase rs st \<longrightarrow>
                (\<forall>t. updatedAt p = Some t \<longrightarrow> (\<exists>t'. updatedAt p' = Some t' \<and> t \<le> t'))
                \<and> (well_stamped k p \<longrightarrow> well_stamped k p')"
  proof
    assume cm: "clock_monotone extname toLowerCase rs st"
    from run_timestamps [OF assms(2) cm assms(1)] g
    have u: "\<forall>t. updatedAt p = Some t \<longrightarrow> (\<exists>t'. updatedAt p' = Some t' \<and> t \<le> t')"
      by auto
    have "well_stamped k p \<longrightarrow> well_stamped k p'"
      using well_stamped_later [OF _ i c u] by blast
    with u show "(\<forall>t. updatedAt p = Some t \<longrightarrow> (\<exists>t'. updatedAt p' = Some t' \<and> t \<le> t'))
                \<and> (well_stamped k p \<longrightarrow> well_stamped k p')"
      by (rule conjI)
  qed
  have first: "\<exists>p'. getProject k (run extname toLowerCase rs st) = Some p'
           \<and> id_p p' = id_p p
           \<and> createdAt p' = createdAt p
           \<and> (clock_monotone extname toLowerCase rs st \<longrightarrow>
                (\<forall>t. updatedAt p = Some t \<longrightarrow> (\<exists>t'. updatedAt p' = Some t' \<and> t \<le> t'))
                \<and> (well_stamped k p \<longrightarrow> well_stamped k p'))"
    using g i c m by (intro exI [of _ p'] conjI)
  have create: "createdAt (fst (createProject ins uuid now st)) = Some now"
    "updatedAt (fst (createProject ins uuid now st))
       = createdAt (fst (createProject ins uuid now st))"
    by (simp_all add: createProject_def Let_def)
  have update: "\<exists>q. updateProject k u now st = (Some q, st\<lparr>projects := Map_set k q (projects st)\<rparr>)
           \<and> id_p q = id_p p \<and> createdAt q = createdAt p \<and> updatedAt q = Some now"
    by (simp add: getProject_updateProject [OF assms(1)] spread_updates_def)
  have writes: "\<forall>r e. r = PostDeposit k \<or> (\<exists>action. r = PostBuyerAction k action)
              \<or> r = PostSellerApprove k \<or> (\<exists>u. r = PatchProject k (Some u))
              \<or> (\<exists>sent f. r = PostUpload k sent
                    \<and> upload_single extname toLowerCase sent = Inr (Some f))
           \<longrightarrow> (\<exists>p1. getProject k (snd (handle extname toLowerCase r e st)) = Some p1
                  \<and> updatedAt p1 = Some (date_project e))"
    using handle_writes_clock [OF assms(1)] by blast
  have reach: "\<forall>rs0 j q. uuids_fresh extname toLowerCase rs0 new_MemStorage
             \<and> clock_monotone extname toLowerCase rs0 new_MemStorage
             \<and> getProject j (run extname toLowerCase rs0 new_MemStorage) = Some q
           \<longrightarrow> well_stamped j q"
    using run_well_stamped [OF empty_well_stamped] by blast
  from first create update writes reach show ?thesis
    by (intro conjI)
qed

lemma scenario_rest_fresh: "uuids_fresh extname_simple lower_ascii scenario_rest created"
  by (simp only: scenario_rest_def uuids_fresh.simps step2 step3 step4 step5 snd_conv)
     (simp add: draw_def Map_keys_def created_def paid_def uploaded_def reviewed_def)

lemma scenario_rest_clock: "clock_monotone extname_simple lower_ascii scenario_rest created"
  by (simp only: scenario_rest_def clock_monotone.simps step2 step3 step4 step5 snd_conv)
     (simp add: Map_values_def not_before_def sample_defs)

lemma scenario_rest_run: "run extname_simple lower_ascii scenario_rest created = completed"
  by (simp only: scenario_rest_def run.simps step2 step3 step4 step5 snd_conv)

theorem timestamps_ordered_witness:
  "getProject ''p1'' created = Some p1_created
   \<and> uuids_fresh extname_simple lower_ascii scenario_rest created
   \<and> clock_monotone extname_simple lower_ascii scenario_rest created
   \<and> updatedAt p1_created = Some 1000
   \<and> well_stamped ''p1'' p1_created
   \<and> (\<exists>p'. getProject ''p1'' (run extname_simple lower_ascii scenario_rest created) = Some p'
          \<and> id_p p' = id_p p1_created
          \<and> createdAt p' = createdAt p1_created
          \<and> (\<exists>t'. updatedAt p' = Some t' \<and> 1000 \<le> t')
          \<and> well_stamped ''p1'' p')"
proof -
  have h1: "getProject ''p1'' created = Some p1_created"
    by (rule getProject_samples)
  have h2: "uuids_fresh extname_simple lower_ascii scenario_rest created"
    by (rule scenario_rest_fresh)
  have h3: "clock_monotone extname_simple lower_ascii scenario_rest created"
    by (rule scenario_rest_clock)
  have h4: "updatedAt p1_created = Some 1000"
    by (simp add: p1_created_def)
  have h5: "well_stamped ''p1'' p1_created"
    by (simp add: well_stamped_def p1_created_def)
  note t = timestamps_ordered [OF h1 h2, of bracket "''p2''" 0 no_updates]
  from conjunct1 [OF t]
  have c: "\<exists>p'. getProject ''p1'' (run extname_simple lower_ascii scenario_rest created) = Some p'
          \<and> id_p p' = id_p p1_created
          \<and> createdAt p' = createdAt p1_created
          \<and> (\<exists>t'. updatedAt p' = Some t' \<and> 1000 \<le> t')
          \<and> well_stamped ''p1'' p'"
  proof (elim exE conjE)
    fix p'
    assume g: "getProject ''p1'' (run extname_simple lower_ascii scenario_rest created) = Some p'"
      and i: "id_p p' = id_p p1_created"
      and c: "createdAt p' = createdAt p1_created"
      and m: "clock_monotone extname_simple lower_ascii scenario_rest created \<longrightarrow>
                (\<forall>t. updatedAt p1_created = Some t \<longrightarrow> (\<exists>t'. updatedAt p' = Some t' \<and> t \<le> t'))
                \<and> (well_stamped ''p1'' p1_created \<longrightarrow> well_stamped ''p1'' p')"
    from m h3 have u: "\<forall>t. updatedAt p1_created = Some t \<longrightarrow> (\<exists>t'. updatedAt p' = Some t' \<and> t \<le> t')"
      and w: "well_stamped ''p1'' p1_created \<longrightarrow> well_stamped ''p1'' p'"
      by simp_all
    from u h4 have u': "\<exists>t'. updatedAt p' = Some t' \<and> 1000 \<le> t'"
      by simp
    from w h5 have w': "well_stamped ''p1'' p'"
      by simp
    from g i c u' w'
    show "\<exists>p'. getProject ''p1'' (run extname_simple lower_ascii scenario_rest created) = Some p'
          \<and> id_p p' = id_p p1_created
          \<and> createdAt p' = createdAt p1_created
          \<and> (\<exists>t'. updatedAt p' = Some t' \<and> 1000 \<le> t')
          \<and> well_stamped ''p1'' p'"
      by (intro exI [of _ p'] conjI)
  qed
  show ?thesis
    by (rule conjI [OF h1 conjI [OF h2 conjI [OF h3 conjI [OF h4 conjI [OF h5 c]]]]])
qed

end
